theory Spec2Isabelle
  imports Main "HOL-Library.Sublist"
begin

section \<open>Go string primitives used by the parser\<close>

text \<open>
  A Go \<^verbatim>\<open>string\<close> is a sequence of bytes, and so is an Isabelle \<^typ>\<open>string\<close>.
  Indices and lengths are Go \<^verbatim>\<open>int\<close>s and are modelled as \<^typ>\<open>int\<close>: the
  parser computes with the value \<open>-1\<close> that \<^verbatim>\<open>strings.Index\<close> returns when
  there is no match.
\<close>

fun index_from :: "string \<Rightarrow> string \<Rightarrow> nat \<Rightarrow> int" where
  "index_from sub [] i = (if sub = [] then int i else -1)"
| "index_from sub (c # cs) i =
     (if take (length sub) (c # cs) = sub then int i else index_from sub cs (Suc i))"

definition strings_Index :: "string \<Rightarrow> string \<Rightarrow> int" where
  \<comment> \<open>\<^verbatim>\<open>strings.Index(s, sub)\<close>: index of the first occurrence of \<open>sub\<close> in \<open>s\<close>, or \<open>-1\<close>.\<close>
  "strings_Index s sub = index_from sub s 0"

definition CR :: char where "CR = CHR 0x0D"
definition LF :: char where "LF = CHR 0x0A"

definition CRLFCRLF :: string where
  "CRLFCRLF = [CR, LF, CR, LF]"

fun strings_Split :: "string \<Rightarrow> char \<Rightarrow> string list" where
  \<comment> \<open>\<^verbatim>\<open>strings.Split(s, sep)\<close> for a one-byte separator: \<open>n\<close> separators give \<open>n + 1\<close> parts.\<close>
  "strings_Split [] sep = [[]]"
| "strings_Split (c # cs) sep =
     (if c = sep then [] # strings_Split cs sep
      else (case strings_Split cs sep of
              [] \<Rightarrow> [[c]]
            | p # ps \<Rightarrow> (c # p) # ps))"

fun strings_Join :: "string list \<Rightarrow> string \<Rightarrow> string" where
  "strings_Join [] sep = []"
| "strings_Join [x] sep = x"
| "strings_Join (x # y # ys) sep = x @ sep @ strings_Join (y # ys) sep"

definition strings_Count :: "string \<Rightarrow> char \<Rightarrow> int" where
  "strings_Count s c = int (length (filter (\<lambda>x. x = c) s))"

definition is_digit :: "char \<Rightarrow> bool" where
  "is_digit c = (48 \<le> (of_char c :: nat) \<and> (of_char c :: nat) \<le> 57)"

definition digits_value :: "string \<Rightarrow> nat" where
  "digits_value s = foldl (\<lambda>acc c. 10 * acc + ((of_char c :: nat) - 48)) 0 s"

definition strconv_ParseUint :: "string \<Rightarrow> nat \<Rightarrow> nat option" where
  \<comment> \<open>\<^verbatim>\<open>strconv.ParseUint(s, 10, bitSize)\<close>: \<open>None\<close> stands for a non-nil error (empty
      text, a byte that is not a decimal digit, or a value that needs more than
      \<open>bitSize\<close> bits).\<close>
  "strconv_ParseUint s bitSize =
     (if s = [] then None
      else if \<not> list_all is_digit s then None
      else if digits_value s < 2 ^ bitSize then Some (digits_value s)
      else None)"

definition ascii_upper :: "char \<Rightarrow> char" where
  "ascii_upper c =
     (if 97 \<le> (of_char c :: nat) \<and> (of_char c :: nat) \<le> 122
      then char_of ((of_char c :: nat) - 32) else c)"

definition ascii_lower :: "char \<Rightarrow> char" where
  "ascii_lower c =
     (if 65 \<le> (of_char c :: nat) \<and> (of_char c :: nat) \<le> 90
      then char_of ((of_char c :: nat) + 32) else c)"

text \<open>
  \<^verbatim>\<open>strings.ToUpper\<close> and \<^verbatim>\<open>strings.ToLower\<close> are modelled on ASCII text: bytes from
  \<open>0x80\<close> on are left as they are. The theorems below that go through these two
  functions evaluate them on ASCII inputs only.
\<close>

definition strings_ToUpper :: "string \<Rightarrow> string" where
  "strings_ToUpper s = map ascii_upper s"

definition strings_ToLower :: "string \<Rightarrow> string" where
  "strings_ToLower s = map ascii_lower s"

text \<open>
  \<^verbatim>\<open>strings.TrimSpace\<close> removes the leading and the trailing white space of a string, as
  \<^verbatim>\<open>unicode.IsSpace\<close> defines it: tab, line feed, vertical tab, form feed, carriage
  return, space, \<open>U+0085\<close>, \<open>U+00A0\<close>, \<open>U+1680\<close>, \<open>U+2000\<close> to \<open>U+200A\<close>, \<open>U+2028\<close>,
  \<open>U+2029\<close>, \<open>U+202F\<close>, \<open>U+205F\<close> and \<open>U+3000\<close>. A string is a sequence of bytes, so
  these are their UTF-8 encodings. A leading (trailing) rune is white space exactly when
  one of these encodings is a prefix (suffix) of the string: they are the only byte
  sequences that decode to these runes, and a byte that is not part of a valid encoding
  decodes to \<open>U+FFFD\<close>, which is not white space.
\<close>

definition space_runes :: "string list" where
  "space_runes =
     [[CHR 0x09], [CHR 0x0A], [CHR 0x0B], [CHR 0x0C], [CHR 0x0D], [CHR 0x20],
      [CHR 0xC2, CHR 0x85], [CHR 0xC2, CHR 0xA0],
      [CHR 0xE1, CHR 0x9A, CHR 0x80],
      [CHR 0xE2, CHR 0x80, CHR 0x80], [CHR 0xE2, CHR 0x80, CHR 0x81],
      [CHR 0xE2, CHR 0x80, CHR 0x82], [CHR 0xE2, CHR 0x80, CHR 0x83],
      [CHR 0xE2, CHR 0x80, CHR 0x84], [CHR 0xE2, CHR 0x80, CHR 0x85],
      [CHR 0xE2, CHR 0x80, CHR 0x86], [CHR 0xE2, CHR 0x80, CHR 0x87],
      [CHR 0xE2, CHR 0x80, CHR 0x88], [CHR 0xE2, CHR 0x80, CHR 0x89],
      [CHR 0xE2, CHR 0x80, CHR 0x8A],
      [CHR 0xE2, CHR 0x80, CHR 0xA8], [CHR 0xE2, CHR 0x80, CHR 0xA9],
      [CHR 0xE2, CHR 0x80, CHR 0xAF],
      [CHR 0xE2, CHR 0x81, CHR 0x9F],
      [CHR 0xE3, CHR 0x80, CHR 0x80]]"

function trim_runes :: "string list \<Rightarrow> string \<Rightarrow> string" where
  \<comment> \<open>removes leading occurrences of the byte sequences \<open>ws\<close> as long as there is one\<close>
  "trim_runes ws s =
     (case find (\<lambda>w. w \<noteq> [] \<and> prefix w s) ws of
        None \<Rightarrow> s
      | Some w \<Rightarrow> trim_runes ws (drop (length w) s))"
  by pat_completeness auto
termination
proof (relation "measure (\<lambda>(ws, s). length s)")
  show "wf (measure (\<lambda>(ws, s :: string). length s))"
    by simp
next
  fix ws :: "string list" and s w :: string
  assume "find (\<lambda>w. w \<noteq> [] \<and> prefix w s) ws = Some w"
  then have "w \<noteq> []" and "prefix w s"
    by (auto simp: find_Some_iff)
  then have "s \<noteq> []" by auto
  with \<open>w \<noteq> []\<close> show "((ws, drop (length w) s), (ws, s)) \<in> measure (\<lambda>(ws, s). length s)"
    by simp
qed

declare trim_runes.simps [simp del]

definition strings_TrimSpace :: "string \<Rightarrow> string" where
  "strings_TrimSpace s =
     rev (trim_runes (map rev space_runes) (rev (trim_runes space_runes s)))"

definition abnfWs :: string where
  "abnfWs = [CHR '' '', CHR 0x09]"

section \<open>Parser: start line\<close>

datatype syntax_error =
    StatusLineTooFewSpaces
  | RequestLineSpaces
  | WildcardInRequestLine
  | NotASipMessage
  | NumError
  | UriNoColon
  | UriUnsupportedSchema
  | UriInvalidProtocolName
  | UriNoColonAfterProtocol
  | UriEndedEarly
  | ParamsExpectedStart
  | ParamsSingletonDisallowed
  | ParamsQuoteInKey
  | ParamsQuoteMidValue
  | ParamsCharAfterQuote
  | ParamsKeyLengthZero
  | ParamsEqInValue
  | ParamsUnclosedQuotes
  | AddressEmptyBody
  | AddressUnclosedQuotes
  | AddressExpectedAngle
  | AddressAngleNotClosed
  | AddressMultipleTo
  | AddressMultipleFrom
  | AddressWildcardNotPermitted
  | AddressWildcardWithParams
  | AddressWildcardWithDisplayName

definition parseStatusLine :: "string \<Rightarrow> syntax_error + (string \<times> nat \<times> string)" where
  \<comment> \<open>Returns \<open>(sipVersion, statusCode, reasonPhrase)\<close>. The status code is read by
      \<^verbatim>\<open>strconv.ParseUint(parts[1], 10, 16)\<close>; its error is the function's error.\<close>
  "parseStatusLine statusLine =
     (let parts = strings_Split statusLine (CHR '' '')
      in if length parts < 3 then Inl StatusLineTooFewSpaces
         else (case strconv_ParseUint (parts ! 1) 16 of
                 None \<Rightarrow> Inl NumError
               | Some statusCode \<Rightarrow>
                   Inr (parts ! 0, statusCode, strings_Join (drop 2 parts) [])))"

definition isResponse :: "string \<Rightarrow> bool" where
  "isResponse startLine =
     (if strings_Count startLine (CHR '' '') < 2 then False
      else let parts = strings_Split startLine (CHR '' '')
           in if length parts < 3 then False
              else if length (parts ! 0) < 3 then False
              else strings_ToUpper (take 3 (parts ! 0)) = ''SIP'')"

definition isRequest :: "string \<Rightarrow> bool" where
  "isRequest startLine =
     (if strings_Count startLine (CHR '' '') \<noteq> 2 then False
      else let parts = strings_Split startLine (CHR '' '')
           in if length parts < 3 then False
              else if length (parts ! 2) < 3 then False
              else strings_ToUpper (take 3 (parts ! 2)) = ''SIP'')"

section \<open>Parser: Write and the body-length side channel\<close>

datatype parser_error =
    InvalidStartLineError
  | MalformedMessageError
  | BrokenMessageError
  | ParserWriteError

text \<open>
  The fields of \<^verbatim>\<open>parser\<close> that \<^verbatim>\<open>Write\<close>, \<^verbatim>\<open>Stop\<close>, \<^verbatim>\<open>Reset\<close>,
  \<^verbatim>\<open>setError\<close> and \<^verbatim>\<open>getError\<close> read or write. \<open>input\<close> is the content of the
  parser buffer that the parse task has not consumed yet; \<open>bodyLengths\<close> is the FIFO
  of \<^verbatim>\<open>[]int{l, len(data)}\<close> pairs handed to the parse task; \<open>errs_sent\<close> holds the
  errors sent down the channel \<^verbatim>\<open>p.errs\<close>, in order.
\<close>

record parser =
  streamed :: bool
  input :: string
  bodyLengths :: "(int \<times> int) list"
  errs_sent :: "parser_error list"
  terminalErr :: "parser_error option"
  stopped :: bool

definition NewParser :: "bool \<Rightarrow> parser" where
  "NewParser s =
     \<lparr> streamed = s, input = [], bodyLengths = [], errs_sent = [], terminalErr = None,
       stopped = False \<rparr>"

definition setError :: "parser \<Rightarrow> parser_error option \<Rightarrow> parser" where
  "setError p err = p\<lparr> terminalErr := err \<rparr>"

definition getError :: "parser \<Rightarrow> parser_error option" where
  "getError p = terminalErr p"

definition getBodyLength :: "string \<Rightarrow> int" where
  "getBodyLength s =
     (let bodyStart = strings_Index s CRLFCRLF + 4
      in int (length s) - bodyStart)"

definition Write :: "parser \<Rightarrow> string \<Rightarrow> parser \<times> (parser_error + int)" where
  \<comment> \<open>The test of \<^verbatim>\<open>getError()\<close> at the head of the source function is commented
      out there; the only guard left is \<^verbatim>\<open>p.stopped\<close>.\<close>
  "Write p data =
     (if stopped p then (p, Inl ParserWriteError)
      else
        let p1 = (if \<not> streamed p
                  then p\<lparr> bodyLengths := bodyLengths p @ [(getBodyLength data, int (length data))] \<rparr>
                  else p);
            p2 = p1\<lparr> input := input p1 @ data \<rparr>
        in (p2, Inr (int (length data))))"

definition Stop :: "parser \<Rightarrow> parser" where
  "Stop p = p\<lparr> stopped := True \<rparr>"

definition Reset :: "parser \<Rightarrow> parser" where
  "Reset p = setError (p\<lparr> stopped := False \<rparr>) None"

definition parse_contentLength :: "parser \<Rightarrow> nat list \<Rightarrow> parser \<times> int option" where
  \<comment> \<open>The branch \<^verbatim>\<open>if p.streamed\<close> of \<^verbatim>\<open>parse\<close> that determines the length of the body in
      stream mode, given the values of the \<^verbatim>\<open>Content-Length\<close> headers of the message.
      With none or several of them the task records the terminal error, sends it down
      \<^verbatim>\<open>p.errs\<close> and goes on with the next message (\<open>None\<close>); with one it takes its
      value.\<close>
  "parse_contentLength p contentLengthHeaders =
     (if length contentLengthHeaders = 0
      then ((setError p (Some MalformedMessageError))
              \<lparr> errs_sent := errs_sent p @ [MalformedMessageError] \<rparr>, None)
      else if length contentLengthHeaders > 1
      then ((setError p (Some MalformedMessageError))
              \<lparr> errs_sent := errs_sent p @ [MalformedMessageError] \<rparr>, None)
      else (p, Some (int (contentLengthHeaders ! 0))))"

section \<open>Parser: key-value parameters\<close>

text \<open>
  Modelled from the spec: the type \<^verbatim>\<open>core.Params\<close> and its methods live in the package
  \<^verbatim>\<open>core\<close>, which is not among the sources. The spec describes it as an ordered
  mapping from keys to optional values that preserves insertion order; it is modelled
  as an association list with distinct keys, where \<^verbatim>\<open>Add\<close> replaces the value of a
  known key in place and appends an unknown key. A \<^verbatim>\<open>core.MaybeString\<close> is a
  \<^typ>\<open>string option\<close> (\<open>None\<close> for \<^verbatim>\<open>nil\<close>).
\<close>

type_synonym params = "(string \<times> string option) list"

definition NewParams :: params where
  "NewParams = []"

fun params_Add :: "params \<Rightarrow> string \<Rightarrow> string option \<Rightarrow> params" where
  "params_Add [] k v = [(k, v)]"
| "params_Add ((k', v') # ps) k v =
     (if k' = k then (k, v) # ps else (k', v') # params_Add ps k v)"

definition params_Length :: "params \<Rightarrow> nat" where
  "params_Length ps = length ps"

definition string_of_byte :: "char \<Rightarrow> string" where
  \<comment> \<open>The Go conversion \<^verbatim>\<open>string(b)\<close> of a \<^verbatim>\<open>uint8\<close>: the UTF-8 encoding of the code
      point \<open>b\<close>, which is the byte itself below \<open>0x80\<close> and two bytes from \<open>0x80\<close> on.\<close>
  "string_of_byte c =
     (if (of_char c :: nat) < 128 then [c]
      else [char_of (192 + (of_char c :: nat) div 64), char_of (128 + (of_char c :: nat) mod 64)])"

definition strings_Contains :: "string \<Rightarrow> string \<Rightarrow> bool" where
  "strings_Contains s sub = (0 \<le> strings_Index s sub)"

text \<open>The local variables of \<^verbatim>\<open>parseParams\<close> that its loop reads and writes.\<close>

record pp_state =
  pp_params :: params
  consumed :: int
  pp_buffer :: string
  pp_key :: string
  parsingKey :: bool
  inQuotes :: bool

datatype pp_step = Continue pp_state | Break | Fail syntax_error

definition parseStep ::
  "char \<Rightarrow> char \<Rightarrow> bool \<Rightarrow> bool \<Rightarrow> pp_state \<Rightarrow> char \<Rightarrow> string \<Rightarrow> pp_step" where
  \<comment> \<open>The \<^verbatim>\<open>switch\<close> on \<^verbatim>\<open>source[consumed]\<close>, here \<open>c\<close>; \<open>rest\<close> is the text after \<open>c\<close>, so
      \<^verbatim>\<open>consumed != len(source)-1\<close> is \<open>rest \<noteq> []\<close> and \<^verbatim>\<open>source[consumed+1]\<close> is \<open>hd rest\<close>.
      The cases are tried in the order of the source. \<open>Continue\<close> covers both
      \<^verbatim>\<open>continue\<close> and falling out of the \<^verbatim>\<open>switch\<close>; \<open>Break\<close> is \<^verbatim>\<open>break parseLoop\<close>;
      \<open>Fail\<close> is a \<^verbatim>\<open>return\<close> with an error.\<close>
  "parseStep sep end quoteValues permitSingletons st c rest =
     (if c = end then
        (if inQuotes st
         then Continue (st\<lparr> pp_buffer := pp_buffer st @ string_of_byte end \<rparr>)
         else Break)
      else if c = sep then
        (if inQuotes st
         then Continue (st\<lparr> pp_buffer := pp_buffer st @ string_of_byte sep \<rparr>)
         else if parsingKey st \<and> permitSingletons
         then Continue (st\<lparr> pp_params := params_Add (pp_params st) (pp_buffer st) None,
                            pp_buffer := [], parsingKey := True \<rparr>)
         else if parsingKey st then Fail ParamsSingletonDisallowed
         else Continue (st\<lparr> pp_params := params_Add (pp_params st) (pp_key st) (Some (pp_buffer st)),
                            pp_buffer := [], parsingKey := True \<rparr>))
      else if c = CHR 0x22 then
        (if \<not> quoteValues
         then Continue (st\<lparr> pp_buffer := pp_buffer st @ [CHR 0x22] \<rparr>)
         else if parsingKey st then Fail ParamsQuoteInKey
         else if \<not> inQuotes st \<and> length (pp_buffer st) \<noteq> 0 then Fail ParamsQuoteMidValue
         else if inQuotes st \<and> rest \<noteq> [] \<and> hd rest \<noteq> sep then Fail ParamsCharAfterQuote
         else Continue (st\<lparr> inQuotes := \<not> inQuotes st \<rparr>))
      else if c = CHR ''='' then
        (if length (pp_buffer st) = 0 then Fail ParamsKeyLengthZero
         else if \<not> parsingKey st then Fail ParamsEqInValue
         else Continue (st\<lparr> pp_key := pp_buffer st, pp_buffer := [], parsingKey := False \<rparr>))
      else
        (if \<not> inQuotes st \<and> strings_Contains abnfWs (string_of_byte c)
         then Continue st
         else Continue (st\<lparr> pp_buffer := pp_buffer st @ string_of_byte c \<rparr>)))"

fun parseLoop ::
  "char \<Rightarrow> char \<Rightarrow> bool \<Rightarrow> bool \<Rightarrow> pp_state \<Rightarrow> string \<Rightarrow> syntax_error + pp_state" where
  \<comment> \<open>\<^verbatim>\<open>for ; consumed < len(source); consumed++\<close> over the text from \<open>consumed\<close> on;
      the result is the state with which the loop is left.\<close>
  "parseLoop sep end quoteValues permitSingletons st [] = Inr st"
| "parseLoop sep end quoteValues permitSingletons st (c # rest) =
     (case parseStep sep end quoteValues permitSingletons st c rest of
        Fail err \<Rightarrow> Inl err
      | Break \<Rightarrow> Inr st
      | Continue st' \<Rightarrow>
          parseLoop sep end quoteValues permitSingletons (st'\<lparr> consumed := consumed st' + 1 \<rparr>) rest)"

definition parseStart :: "char \<Rightarrow> pp_state" where
  \<comment> \<open>The locals when the loop is entered: \<open>consumed\<close> is 1 after a start delimiter.\<close>
  "parseStart start =
     \<lparr> pp_params = NewParams, consumed = (if start \<noteq> CHR 0x00 then 1 else 0),
       pp_buffer = [], pp_key = [], parsingKey = True, inQuotes = False \<rparr>"

definition parseParams ::
  "string \<Rightarrow> char \<Rightarrow> char \<Rightarrow> char \<Rightarrow> bool \<Rightarrow> bool \<Rightarrow> syntax_error + (params \<times> int)" where
  \<comment> \<open>Returns \<open>(params, consumed)\<close>, or the error.\<close>
  "parseParams source start sep end quoteValues permitSingletons =
     (if length source = 0 then Inr (NewParams, 0)
      else if start \<noteq> CHR 0x00 \<and> source ! 0 \<noteq> start then Inl ParamsExpectedStart
      else
        (case parseLoop sep end quoteValues permitSingletons (parseStart start)
                (drop (nat (consumed (parseStart start))) source) of
           Inl err \<Rightarrow> Inl err
         | Inr st \<Rightarrow>
             if inQuotes st then Inl ParamsUnclosedQuotes
             else if parsingKey st \<and> permitSingletons
             then Inr (params_Add (pp_params st) (pp_buffer st) None, consumed st)
             else if parsingKey st then Inl ParamsSingletonDisallowed
             else Inr (params_Add (pp_params st) (pp_key st) (Some (pp_buffer st)), consumed st)))"

fun scan ::
  "char \<Rightarrow> char \<Rightarrow> bool \<Rightarrow> bool \<Rightarrow> pp_state \<Rightarrow> string \<Rightarrow> string \<Rightarrow> pp_state option" where
  \<comment> \<open>The locals at the head of the loop once it has gone through all of \<open>pre\<close>, in a
      source that goes on with \<open>rest\<close>; \<open>None\<close> if it has left the loop or the function
      before.\<close>
  "scan sep end quoteValues permitSingletons st [] rest = Some st"
| "scan sep end quoteValues permitSingletons st (c # pre) rest =
     (case parseStep sep end quoteValues permitSingletons st c (pre @ rest) of
        Continue st' \<Rightarrow>
          scan sep end quoteValues permitSingletons (st'\<lparr> consumed := consumed st' + 1 \<rparr>) pre rest
      | _ \<Rightarrow> None)"

section \<open>Parser: URIs and address headers\<close>

text \<open>
  Modelled from the spec: the URI types of the package \<^verbatim>\<open>core\<close> are not among the
  sources. A SIP URI holds the secure flag, an optional user and password, a host, an
  optional port and the two parameter mappings; the parser fills exactly these fields.
\<close>

record SipUri =
  IsEncrypted :: bool
  User :: "string option"
  Password :: "string option"
  Host :: string
  Port :: "nat option"
  UriParams :: params
  Headers :: params

datatype Uri = SipUriOf SipUri | WildcardUri

text \<open>
  Indexing and slicing a Go string out of range is a run-time panic. The functions
  below return a \<open>go_result\<close>: the value, the returned error, or \<open>Panic\<close>.
\<close>

datatype 'a go_result = Ok 'a | Err syntax_error | Panic

definition bind_res :: "'a go_result \<Rightarrow> ('a \<Rightarrow> 'b go_result) \<Rightarrow> 'b go_result" where
  "bind_res r f = (case r of Ok x \<Rightarrow> f x | Err e \<Rightarrow> Err e | Panic \<Rightarrow> Panic)"

definition go_slice :: "string \<Rightarrow> int \<Rightarrow> int \<Rightarrow> string go_result" where
  \<comment> \<open>\<^verbatim>\<open>s[lo:hi]\<close>\<close>
  "go_slice s lo hi =
     (if 0 \<le> lo \<and> lo \<le> hi \<and> hi \<le> int (length s)
      then Ok (take (nat (hi - lo)) (drop (nat lo) s)) else Panic)"

definition go_slice_from :: "string \<Rightarrow> int \<Rightarrow> string go_result" where
  \<comment> \<open>\<^verbatim>\<open>s[lo:]\<close>\<close>
  "go_slice_from s lo = go_slice s lo (int (length s))"

definition go_index :: "string \<Rightarrow> int \<Rightarrow> char go_result" where
  \<comment> \<open>\<^verbatim>\<open>s[i]\<close>\<close>
  "go_index s i = (if 0 \<le> i \<and> i < int (length s) then Ok (s ! nat i) else Panic)"

definition parseHostPort :: "string \<Rightarrow> syntax_error + (string \<times> nat option)" where
  "parseHostPort rawText =
     (let colonIdx = strings_Index rawText '':''
      in if colonIdx = -1 then Inr (rawText, None)
         else (case strconv_ParseUint (drop (nat (colonIdx + 1)) rawText) 16 of
                 None \<Rightarrow> Inl NumError
               | Some portRaw \<Rightarrow> Inr (take (nat colonIdx) rawText, Some portRaw)))"

definition ParseSipUri_params ::
  "bool \<Rightarrow> string option \<Rightarrow> string option \<Rightarrow> string \<Rightarrow> nat option \<Rightarrow> string \<Rightarrow> SipUri go_result" where
  \<comment> \<open>the end of \<^verbatim>\<open>ParseSipUri\<close>, from the comment "Now parse any URI parameters" on;
      \<open>uriStr\<close> is the text after the host and port, and is not empty\<close>
  "ParseSipUri_params enc user password host port uriStr =
     (case (if uriStr ! 0 = CHR '';''
            then parseParams uriStr (CHR '';'') (CHR '';'') (CHR ''?'') True True
            else Inr (NewParams, 0)) of
        Inl err \<Rightarrow> Err err
      | Inr (uriParams, n) \<Rightarrow>
          bind_res (go_slice_from uriStr n) (\<lambda>uriStr1.
            (case parseParams uriStr1 (CHR ''?'') (CHR ''&'') (CHR 0x00) True False of
               Inl err \<Rightarrow> Err err
             | Inr (headers, n1) \<Rightarrow>
                 bind_res (go_slice_from uriStr1 n1) (\<lambda>uriStr2.
                   if length uriStr2 > 0 then Err UriEndedEarly
                   else Ok \<lparr> IsEncrypted = enc, User = user, Password = password, Host = host,
                            Port = port, UriParams = uriParams, Headers = headers \<rparr>))))"

definition ParseSipUri_host ::
  "bool \<Rightarrow> string option \<Rightarrow> string option \<Rightarrow> string \<Rightarrow> SipUri go_result" where
  \<comment> \<open>the middle of \<^verbatim>\<open>ParseSipUri\<close>: host and port, up to the first \<open>;\<close>, else \<open>?\<close>, else
      the end of the text\<close>
  "ParseSipUri_host enc user password uriStr =
     (let semi = strings_Index uriStr '';'';
          endOfUriPart0 = (if semi = -1 then strings_Index uriStr ''?'' else semi);
          endOfUriPart = (if endOfUriPart0 = -1 then int (length uriStr) else endOfUriPart0)
      in bind_res (go_slice uriStr 0 endOfUriPart) (\<lambda>hostPort.
         bind_res (go_slice_from uriStr endOfUriPart) (\<lambda>uriStr1.
           (case parseHostPort hostPort of
              Inl err \<Rightarrow> Err err
            | Inr (host, port) \<Rightarrow>
                if length uriStr1 = 0
                then Ok \<lparr> IsEncrypted = enc, User = user, Password = password, Host = host,
                         Port = port, UriParams = NewParams, Headers = NewParams \<rparr>
                else ParseSipUri_params enc user password host port uriStr1))))"

definition ParseSipUri_user :: "bool \<Rightarrow> string \<Rightarrow> SipUri go_result" where
  \<comment> \<open>\<^verbatim>\<open>ParseSipUri\<close> after the scheme and its colon: the optional user-info part\<close>
  "ParseSipUri_user enc uriStr =
     (let endOfUserInfoPart = strings_Index uriStr ''@''
      in if endOfUserInfoPart \<noteq> -1
         then
           (let colon = strings_Index uriStr '':'';
                endOfUsernamePart = (if colon > endOfUserInfoPart then -1 else colon)
            in bind_res
                 (if endOfUsernamePart = -1
                  then bind_res (go_slice uriStr 0 endOfUserInfoPart) (\<lambda>u. Ok (Some u, None))
                  else bind_res (go_slice uriStr 0 endOfUsernamePart) (\<lambda>u.
                       bind_res (go_slice uriStr (endOfUsernamePart + 1) endOfUserInfoPart) (\<lambda>p.
                         Ok (Some u, Some p))))
                 (\<lambda>(user, password).
                    bind_res (go_slice_from uriStr (endOfUserInfoPart + 1))
                      (ParseSipUri_host enc user password)))
         else ParseSipUri_host enc None None uriStr)"

definition ParseSipUri :: "string \<Rightarrow> SipUri go_result" where
  "ParseSipUri uriStr =
     bind_res (go_slice uriStr 0 3) (\<lambda>scheme.
       if strings_ToLower scheme \<noteq> ''sip'' then Err UriInvalidProtocolName
       else
         bind_res (go_slice_from uriStr 3) (\<lambda>uriStr1.
         bind_res (go_slice uriStr1 0 1) (\<lambda>s.
         bind_res (if strings_ToLower s = ''s'' then go_slice_from uriStr1 1 else Ok uriStr1) (\<lambda>uriStr2.
         bind_res (go_index uriStr2 0) (\<lambda>c.
           if c \<noteq> CHR '':'' then Err UriNoColonAfterProtocol
           else bind_res (go_slice_from uriStr2 1)
                  (ParseSipUri_user (strings_ToLower s = ''s'')))))))"

definition ParseUri :: "string \<Rightarrow> Uri go_result" where
  "ParseUri uriStr =
     (if strings_TrimSpace uriStr = ''*'' then Ok WildcardUri
      else
        (let colonIdx = strings_Index uriStr '':''
         in if colonIdx = -1 then Err UriNoColon
            else bind_res (go_slice uriStr 0 colonIdx) (\<lambda>scheme.
                   if strings_ToLower scheme = ''sip'' \<or> strings_ToLower scheme = ''sips''
                   then bind_res (ParseSipUri uriStr) (\<lambda>sipUri. Ok (SipUriOf sipUri))
                   else Err UriUnsupportedSchema)))"

fun findAnyUnescaped_from ::
  "string \<Rightarrow> (char \<rightharpoonup> char) \<Rightarrow> bool \<Rightarrow> char \<Rightarrow> int \<Rightarrow> string \<Rightarrow> int" where
  \<comment> \<open>the loop of \<^verbatim>\<open>findAnyUnescaped\<close> at index \<open>idx\<close>, with the text from there on\<close>
  "findAnyUnescaped_from targets endChars escaped endEscape idx [] = -1"
| "findAnyUnescaped_from targets endChars escaped endEscape idx (c # cs) =
     (if \<not> escaped \<and> strings_Contains targets (string_of_byte c) then idx
      else if escaped
      then findAnyUnescaped_from targets endChars (c \<noteq> endEscape) endEscape (idx + 1) cs
      else (case endChars c of
              Some e \<Rightarrow> findAnyUnescaped_from targets endChars True e (idx + 1) cs
            | None \<Rightarrow> findAnyUnescaped_from targets endChars False (CHR 0x00) (idx + 1) cs))"

definition findAnyUnescaped :: "string \<Rightarrow> string \<Rightarrow> (char \<times> char) list \<Rightarrow> int" where
  \<comment> \<open>\<open>delims\<close> are the pairs \<^verbatim>\<open>delimiter{start, end}\<close>; a later pair overrides an
      earlier one with the same start\<close>
  "findAnyUnescaped text targets delims =
     findAnyUnescaped_from targets (map_of (rev delims)) False (CHR 0x00) 0 text"

definition findUnescaped :: "string \<Rightarrow> char \<Rightarrow> (char \<times> char) list \<Rightarrow> int" where
  "findUnescaped text target delims = findAnyUnescaped text (string_of_byte target) delims"

definition quotesDelim :: "char \<times> char" where
  "quotesDelim = (CHR 0x22, CHR 0x22)"

definition parseAddressValue_uri ::
  "string option \<Rightarrow> string \<Rightarrow> (string option \<times> Uri \<times> params) go_result" where
  \<comment> \<open>\<^verbatim>\<open>parseAddressValue\<close> from the comment "Work out where the SIP URI starts and
      ends" on; \<open>addressText\<close> is the text after the display name\<close>
  "parseAddressValue_uri displayName addressText0 =
     (let addressText = strings_TrimSpace addressText0
      in bind_res (go_index addressText 0) (\<lambda>c.
           bind_res
             (if c \<noteq> CHR ''<''
              then (if displayName \<noteq> None then Err AddressExpectedAngle
                    else (let semi = strings_Index addressText '';'';
                              endOfUri = (if semi = -1 then int (length addressText) else semi)
                          in Ok (addressText, endOfUri, endOfUri)))
              else bind_res (go_slice_from addressText 1) (\<lambda>addressText1.
                     (let endOfUri = strings_Index addressText1 ''>''
                      in if endOfUri = 0 then Err AddressAngleNotClosed
                         else Ok (addressText1, endOfUri, endOfUri + 1))))
             (\<lambda>(addressText2, endOfUri, startOfParams).
                bind_res (go_slice addressText2 0 endOfUri) (\<lambda>uriText.
                bind_res (ParseUri uriText) (\<lambda>uri.
                  if startOfParams \<ge> int (length addressText2)
                  then Ok (displayName, uri, NewParams)
                  else bind_res (go_slice_from addressText2 startOfParams) (\<lambda>paramText.
                         (case parseParams paramText (CHR '';'') (CHR '';'') (CHR '','') True True of
                            Inl err \<Rightarrow> Err err
                          | Inr (headerParams, n) \<Rightarrow> Ok (displayName, uri, headerParams))))))))"

definition parseAddressValue :: "string \<Rightarrow> (string option \<times> Uri \<times> params) go_result" where
  "parseAddressValue addressText0 =
     (if length addressText0 = 0 then Err AddressEmptyBody
      else
        (let addressText = strings_TrimSpace addressText0;
             firstAngleBracket = findUnescaped addressText (CHR ''<'') [quotesDelim]
         in if firstAngleBracket > 0
            then bind_res (go_index addressText 0) (\<lambda>c.
                   if c = CHR 0x22
                   then bind_res (go_slice_from addressText 1) (\<lambda>addressText1.
                          (let nextQuote = strings_Index addressText1 [CHR 0x22]
                           in if nextQuote = -1 then Err AddressUnclosedQuotes
                              else bind_res (go_slice addressText1 0 nextQuote) (\<lambda>nameField.
                                   bind_res (go_slice_from addressText1 (nextQuote + 1))
                                     (parseAddressValue_uri (Some nameField)))))
                   else bind_res (go_slice addressText 0 firstAngleBracket) (\<lambda>nameField.
                        bind_res (go_slice_from addressText firstAngleBracket)
                          (parseAddressValue_uri (Some (strings_TrimSpace nameField)))))
            else parseAddressValue_uri None addressText))"

text \<open>
  \<^verbatim>\<open>parseAddressValues\<close> ranges over the runes of the text with their byte offsets and
  compares them with ASCII characters only. No byte of a multi-byte UTF-8 sequence and
  no invalid byte is ASCII, so the loop is modelled byte by byte. The state of the loop
  is \<open>prevIdx\<close>, \<open>inBrackets\<close>, \<open>inQuotes\<close> (written \<open>inQuotes'\<close>) and the three
  result slices, kept as one list of triples.
\<close>

fun parseAddressValues_from ::
  "string \<Rightarrow> int \<Rightarrow> bool \<Rightarrow> bool \<Rightarrow> (string option \<times> Uri \<times> params) list \<Rightarrow> int \<Rightarrow> string
   \<Rightarrow> (string option \<times> Uri \<times> params) list go_result" where
  "parseAddressValues_from addresses prevIdx inBrackets inQuotes' acc idx [] = Ok acc"
| "parseAddressValues_from addresses prevIdx inBrackets inQuotes' acc idx (char # cs) =
     (if char = CHR ''<'' \<and> \<not> inQuotes'
      then parseAddressValues_from addresses prevIdx True inQuotes' acc (idx + 1) cs
      else if char = CHR ''>'' \<and> \<not> inQuotes'
      then parseAddressValues_from addresses prevIdx False inQuotes' acc (idx + 1) cs
      else if char = CHR 0x22
      then parseAddressValues_from addresses prevIdx inBrackets (\<not> inQuotes') acc (idx + 1) cs
      else if \<not> inQuotes' \<and> \<not> inBrackets \<and> char = CHR '',''
      then bind_res (go_slice addresses prevIdx idx) (\<lambda>section.
           bind_res (parseAddressValue section) (\<lambda>parsed.
             parseAddressValues_from addresses (idx + 1) inBrackets inQuotes' (acc @ [parsed])
               (idx + 1) cs))
      else parseAddressValues_from addresses prevIdx inBrackets inQuotes' acc (idx + 1) cs)"

definition parseAddressValues :: "string \<Rightarrow> (string option \<times> Uri \<times> params) list go_result" where
  \<comment> \<open>the display names, URIs and header parameters of the sections, in order\<close>
  "parseAddressValues addresses0 =
     (let addresses = addresses0 @ '',''
      in parseAddressValues_from addresses 0 False False [] 0 addresses)"

text \<open>
  Modelled from the spec: the header types \<^verbatim>\<open>core.ToHeader\<close>, \<^verbatim>\<open>core.FromHeader\<close> and
  \<^verbatim>\<open>core.ContactHeader\<close> are declared outside the sources; each holds an optional
  display name, a URI and parameters. Both kinds of URI that \<^verbatim>\<open>ParseUri\<close> returns are
  contact URIs, so the \<^verbatim>\<open>default\<close> branch of the type switch on contact URIs is never
  taken.
\<close>

datatype AddressHeader =
    ToHeader "string option" Uri params
  | FromHeader "string option" Uri params
  | ContactHeader "string option" Uri params

fun parseAddressHeader_from ::
  "string \<Rightarrow> nat \<Rightarrow> (string option \<times> Uri \<times> params) list \<Rightarrow> AddressHeader list
   \<Rightarrow> AddressHeader list go_result" where
  \<comment> \<open>the loop over \<open>idx\<close> that builds the headers; the list holds the values from
      \<open>idx\<close> on. The last branch is not reached from \<^verbatim>\<open>parseAddressHeader\<close>, which
      enters the loop with one of the six names only.\<close>
  "parseAddressHeader_from headerName idx [] headers = Ok headers"
| "parseAddressHeader_from headerName idx ((displayName, uri, paramSet) # rest) headers =
     (if headerName = ''to'' \<or> headerName = ''t''
      then (if idx > 0 then Err AddressMultipleTo
            else (case uri of
                    WildcardUri \<Rightarrow> Err AddressWildcardNotPermitted
                  | _ \<Rightarrow> parseAddressHeader_from headerName (idx + 1) rest
                           (headers @ [ToHeader displayName uri paramSet])))
      else if headerName = ''from'' \<or> headerName = ''f''
      then (if idx > 0 then Err AddressMultipleFrom
            else (case uri of
                    WildcardUri \<Rightarrow> Err AddressWildcardNotPermitted
                  | _ \<Rightarrow> parseAddressHeader_from headerName (idx + 1) rest
                           (headers @ [FromHeader displayName uri paramSet])))
      else if headerName = ''contact'' \<or> headerName = ''m''
      then (if uri = WildcardUri \<and> params_Length paramSet > 0 then Err AddressWildcardWithParams
            else if uri = WildcardUri \<and> displayName \<noteq> None then Err AddressWildcardWithDisplayName
            else parseAddressHeader_from headerName (idx + 1) rest
                   (headers @ [ContactHeader displayName uri paramSet]))
      else parseAddressHeader_from headerName (idx + 1) rest headers)"

definition parseAddressHeader :: "string \<Rightarrow> string \<Rightarrow> AddressHeader list go_result" where
  "parseAddressHeader headerName headerText =
     (if headerName \<in> {''to'', ''from'', ''contact'', ''t'', ''f'', ''m''}
      then bind_res (parseAddressValues headerText) (\<lambda>values.
             parseAddressHeader_from headerName 0 values [])
      else Ok [])"

section \<open>Connection pool and connection handler\<close>

text \<open>
  Instants (\<^verbatim>\<open>time.Time\<close>) and durations (\<^verbatim>\<open>time.Duration\<close>) are integers, in
  nanoseconds. \<^verbatim>\<open>timing.Now()\<close> reads the clock, which is not part of the program
  state: every operation that calls it takes the instant it reads as the argument
  \<open>now\<close>. The field \<open>timer\<close> holds the duration the handler's timer was last set to.
\<close>

record ('k, 'c) connectionHandler =
  key :: 'k
  connection :: 'c
  timer :: int
  expiryTime :: int
  cancelled :: bool

definition NewConnectionHandler :: "int \<Rightarrow> 'k \<Rightarrow> 'c \<Rightarrow> int \<Rightarrow> ('k, 'c) connectionHandler" where
  "NewConnectionHandler now k conn ttl =
     \<lparr> key = k, connection = conn, timer = ttl, expiryTime = now + ttl, cancelled = False \<rparr>"

definition Key :: "('k, 'c) connectionHandler \<Rightarrow> 'k" where
  "Key handler = key handler"

definition Connection :: "('k, 'c) connectionHandler \<Rightarrow> 'c" where
  "Connection handler = connection handler"

definition Expiries :: "('k, 'c) connectionHandler \<Rightarrow> int" where
  "Expiries handler = expiryTime handler"

definition Update :: "int \<Rightarrow> ('k, 'c) connectionHandler \<Rightarrow> int \<Rightarrow> ('k, 'c) connectionHandler" where
  "Update now handler ttl = handler\<lparr> expiryTime := now + ttl, timer := ttl \<rparr>"

definition Cancel :: "('k, 'c) connectionHandler \<Rightarrow> ('k, 'c) connectionHandler" where
  "Cancel handler = handler\<lparr> cancelled := True \<rparr>"

datatype ctx_error = Canceled | DeadlineExceeded

text \<open>
  The pool: \<open>ctx_err\<close> is what \<^verbatim>\<open>pool.ctx.Err()\<close> returns (\<open>None\<close> for \<^verbatim>\<open>nil\<close>, that is,
  while the parent context has not been cancelled); \<open>store\<close> is the map from keys to
  handlers. The map holds references: \<^verbatim>\<open>Update\<close> on a handler found in the map changes
  the handler the map refers to, which the model writes as an update of the map entry.
  \<open>dropped\<close> collects the handlers that \<^verbatim>\<open>Drop\<close> has cancelled and removed.
\<close>

record ('k, 'c) connectionPool =
  ctx_err :: "ctx_error option"
  store :: "'k \<rightharpoonup> ('k, 'c) connectionHandler"
  dropped :: "('k, 'c) connectionHandler list"

definition NewConnectionPool :: "('k, 'c) connectionPool" where
  "NewConnectionPool = \<lparr> ctx_err = None, store = Map.empty, dropped = [] \<rparr>"

definition getHandler :: "('k, 'c) connectionPool \<Rightarrow> 'k \<Rightarrow> ('k, 'c) connectionHandler option" where
  "getHandler pool k = store pool k"

definition addHandler ::
  "('k, 'c) connectionPool \<Rightarrow> 'k \<Rightarrow> ('k, 'c) connectionHandler \<Rightarrow> ('k, 'c) connectionPool" where
  "addHandler pool k connHandler = pool\<lparr> store := (store pool)(k \<mapsto> connHandler) \<rparr>"

definition dropHandler :: "('k, 'c) connectionPool \<Rightarrow> 'k \<Rightarrow> ('k, 'c) connectionPool" where
  "dropHandler pool k = pool\<lparr> store := (store pool)(k := None) \<rparr>"

definition Add ::
  "int \<Rightarrow> ('k, 'c) connectionPool \<Rightarrow> 'k \<Rightarrow> 'c \<Rightarrow> int \<Rightarrow> ('k, 'c) connectionPool \<times> ctx_error option" where
  \<comment> \<open>The second component is the returned \<^verbatim>\<open>error\<close> (\<open>None\<close> for \<^verbatim>\<open>nil\<close>).\<close>
  "Add now pool k conn ttl =
     (if ctx_err pool \<noteq> None then (pool, ctx_err pool)
      else (case getHandler pool k of
              None \<Rightarrow> (addHandler pool k (NewConnectionHandler now k conn ttl), None)
            | Some handler \<Rightarrow> (addHandler pool k (Update now handler ttl), None)))"

definition Get :: "('k, 'c) connectionPool \<Rightarrow> 'k \<Rightarrow> 'c option \<times> bool" where
  "Get pool k =
     (case getHandler pool k of
        Some handler \<Rightarrow> (Some (Connection handler), True)
      | None \<Rightarrow> (None, False))"

definition Drop :: "('k, 'c) connectionPool \<Rightarrow> 'k \<Rightarrow> ('k, 'c) connectionPool \<times> bool" where
  "Drop pool k =
     (case getHandler pool k of
        Some handler \<Rightarrow>
          (dropHandler (pool\<lparr> dropped := dropped pool @ [Cancel handler] \<rparr>) k, True)
      | None \<Rightarrow> (pool, False))"

definition serve_expired ::
  "int \<Rightarrow> ('k, 'c) connectionPool \<Rightarrow> ('k, 'c) connectionHandler \<Rightarrow> ('k, 'c) connectionPool" where
  \<comment> \<open>One turn of the loop of \<^verbatim>\<open>Serve\<close> on the case \<^verbatim>\<open>handler := <-pool.expiredHandlers\<close>.\<close>
  "serve_expired now pool handler =
     (case getHandler pool (Key handler) of
        None \<Rightarrow> pool
      | Some _ \<Rightarrow>
          if Expiries handler < now then fst (Drop pool (Key handler))
          else pool)"

fun observed_expiries ::
  "('k, 'c) connectionHandler \<Rightarrow> (int \<times> int) list \<Rightarrow> int list" where
  \<comment> \<open>The values of \<^verbatim>\<open>Expiries()\<close> read after each of a sequence of calls
      \<^verbatim>\<open>Update(ttl)\<close>, each given as the pair of the clock reading and \<open>ttl\<close>.\<close>
  "observed_expiries handler [] = []"
| "observed_expiries handler ((now, ttl) # calls) =
     Expiries (Update now handler ttl) # observed_expiries (Update now handler ttl) calls"

section \<open>Client transaction\<close>

subsection \<open>Messages\<close>

text \<open>
  Modelled from the spec: messages and headers belong to the package \<^verbatim>\<open>core\<close>, which is
  not among the sources. A message is a request or a response with an ordered sequence
  of headers; the transaction distinguishes the \<^verbatim>\<open>CSeq\<close> header (sequence number and
  method) and the \<^verbatim>\<open>Via\<close> header (a list of hops); every other header is kept as its
  name and its contents. Headers are values, so \<^verbatim>\<open>Clone()\<close> is the identity.
  \<^verbatim>\<open>CopyHeaders(name, from, to)\<close> appends to \<open>to\<close> the headers of \<open>from\<close> with that
  name, compared without regard to case.
\<close>

record ViaHop =
  ProtocolName :: string
  ProtocolVersion :: string
  Transport :: string
  ViaHost :: string
  ViaPort :: "nat option"
  ViaParams :: params

datatype Header =
    CSeq nat string
  | ViaHeader "ViaHop list"
  | OtherHeader string string

fun Name :: "Header \<Rightarrow> string" where
  "Name (CSeq seqNo methodName) = ''CSeq''"
| "Name (ViaHeader hops) = ''Via''"
| "Name (OtherHeader name contents) = name"

record Request =
  Method :: string
  Recipient :: Uri
  ReqSipVersion :: string
  ReqHeaders :: "Header list"
  ReqBody :: string

record Response =
  ResSipVersion :: string
  StatusCode :: nat
  Reason :: string
  ResHeaders :: "Header list"
  ResBody :: string

datatype Message = RequestMsg Request | ResponseMsg Response

definition NewRequest :: "string \<Rightarrow> Uri \<Rightarrow> string \<Rightarrow> Header list \<Rightarrow> string \<Rightarrow> Request" where
  "NewRequest m r v hs b =
     \<lparr> Method = m, Recipient = r, ReqSipVersion = v, ReqHeaders = hs, ReqBody = b \<rparr>"

definition GetHeaders :: "Header list \<Rightarrow> string \<Rightarrow> Header list" where
  "GetHeaders hs name =
     filter (\<lambda>h. strings_ToLower (Name h) = strings_ToLower name) hs"

definition AppendHeader :: "Request \<Rightarrow> Header \<Rightarrow> Request" where
  "AppendHeader req h = req\<lparr> ReqHeaders := ReqHeaders req @ [h] \<rparr>"

definition CopyHeaders :: "string \<Rightarrow> Header list \<Rightarrow> Request \<Rightarrow> Request" where
  "CopyHeaders name from to = to\<lparr> ReqHeaders := ReqHeaders to @ GetHeaders from name \<rparr>"

fun first_CSeq :: "Header list \<Rightarrow> (nat \<times> string) option" where
  \<comment> \<open>\<^verbatim>\<open>msg.CSeq()\<close>: the first \<^verbatim>\<open>CSeq\<close> header, if any\<close>
  "first_CSeq [] = None"
| "first_CSeq (CSeq seqNo methodName # hs) = Some (seqNo, methodName)"
| "first_CSeq (h # hs) = first_CSeq hs"

fun first_Via :: "Header list \<Rightarrow> ViaHop list option" where
  \<comment> \<open>\<^verbatim>\<open>msg.Via()\<close>: the first \<^verbatim>\<open>Via\<close> header, if any\<close>
  "first_Via [] = None"
| "first_Via (ViaHeader hops # hs) = Some hops"
| "first_Via (h # hs) = first_Via hs"

definition first_ViaHop :: "Header list \<Rightarrow> ViaHop option" where
  \<comment> \<open>\<^verbatim>\<open>msg.ViaHop()\<close>: the first hop of the first \<^verbatim>\<open>Via\<close> header\<close>
  "first_ViaHop hs =
     (case first_Via hs of
        None \<Rightarrow> None
      | Some [] \<Rightarrow> None
      | Some (hop # hops) \<Rightarrow> Some hop)"

definition ACK :: string where "ACK = ''ACK''"
definition INVITE :: string where "INVITE = ''INVITE''"

definition IsInvite :: "Request \<Rightarrow> bool" where
  "IsInvite req = (Method req = INVITE)"

definition IsProvisional :: "Response \<Rightarrow> bool" where
  \<comment> \<open>the class 1xx: status codes 100 to 199\<close>
  "IsProvisional res = (100 \<le> StatusCode res \<and> StatusCode res < 200)"

definition IsSuccess :: "Response \<Rightarrow> bool" where
  \<comment> \<open>the class 2xx: status codes 200 to 299\<close>
  "IsSuccess res = (200 \<le> StatusCode res \<and> StatusCode res < 300)"

subsection \<open>Durations and timer values\<close>

definition int64 :: "int \<Rightarrow> int" where
  \<comment> \<open>A \<^verbatim>\<open>time.Duration\<close> is an \<^verbatim>\<open>int64\<close> of nanoseconds: arithmetic wraps around.\<close>
  "int64 x = (x + 2 ^ 63) mod 2 ^ 64 - 2 ^ 63"

text \<open>
  Modelled from the spec: the timer constants of the package are declared outside the
  sources; the spec gives the RFC 3261 defaults \<open>T1 = 500ms\<close>, \<open>T2 = 4s\<close>,
  \<open>Timer_A = T1\<close>, \<open>Timer_B = 64 T1\<close> and \<open>Timer_D = 32s\<close>.
\<close>

definition T1 :: int where "T1 = 500000000"
definition T2 :: int where "T2 = 4000000000"
definition Timer_A :: int where "Timer_A = T1"
definition Timer_B :: int where "Timer_B = 64 * T1"
definition Timer_D :: int where "Timer_D = 32000000000"

subsection \<open>The transaction and its state machine\<close>

datatype client_state =
    client_state_calling
  | client_state_proceeding
  | client_state_completed
  | client_state_terminated

datatype fsm_input =
    client_input_1xx
  | client_input_2xx
  | client_input_300_plus
  | client_input_timer_a
  | client_input_timer_b
  | client_input_timer_d
  | client_input_transport_err
  | client_input_delete

datatype action =
    NO_ACTION
  | Act_passup
  | Act_passup_delete
  | Act_invite_final
  | Act_non_invite_final
  | Act_invite_resend
  | Act_non_invite_resend
  | Act_ack
  | Act_trans_err
  | Act_timeout
  | Act_delete

datatype transport_error = SendFailed

datatype tx_error =
    TxTransportError "transport_error option"
  | TxTimeoutError
  | UnexpectedMessageError

text \<open>
  The transaction. A timer is \<open>None\<close> while it does not exist (\<^verbatim>\<open>nil\<close>) and \<open>Some d\<close>
  when it was last started or reset with the duration \<open>d\<close>. \<open>fsm_state\<close> is the current
  state of \<^verbatim>\<open>tx.fsm\<close>. What leaves the transaction is recorded in order: \<open>msgs\<close> holds
  the responses sent down the consumer's message channel, \<open>errs\<close> the errors sent down
  its error channel, \<open>sent\<close> the calls \<^verbatim>\<open>tx.tpl.Send(dest, msg)\<close>, and \<open>deleted\<close> whether
  deletion was requested. The transport layer is outside the program:
  \<open>send_errs n\<close> is the error, if any, that it returns for call number \<open>n\<close> of \<^verbatim>\<open>Send\<close>.
\<close>

record clientTx =
  origin :: Request
  dest :: string
  lastResp :: "Response option"
  lastErr :: "transport_error option"
  timer_a_time :: int
  timer_a :: "int option"
  timer_b :: "int option"
  timer_d_time :: int
  timer_d :: "int option"
  reliable :: bool
  fsm_state :: client_state
  msgs :: "Response list"
  errs :: "tx_error list"
  sent :: "(string \<times> Request) list"
  deleted :: bool
  send_errs :: "nat \<Rightarrow> transport_error option"

fun initInviteFSM :: "client_state \<Rightarrow> fsm_input \<Rightarrow> (client_state \<times> action) option" where
  "initInviteFSM client_state_calling client_input_1xx = Some (client_state_proceeding, Act_passup)"
| "initInviteFSM client_state_calling client_input_2xx = Some (client_state_terminated, Act_passup_delete)"
| "initInviteFSM client_state_calling client_input_300_plus = Some (client_state_completed, Act_invite_final)"
| "initInviteFSM client_state_calling client_input_timer_a = Some (client_state_calling, Act_invite_resend)"
| "initInviteFSM client_state_calling client_input_timer_b = Some (client_state_terminated, Act_timeout)"
| "initInviteFSM client_state_calling client_input_transport_err = Some (client_state_terminated, Act_trans_err)"
| "initInviteFSM client_state_proceeding client_input_1xx = Some (client_state_proceeding, Act_passup)"
| "initInviteFSM client_state_proceeding client_input_2xx = Some (client_state_terminated, Act_passup_delete)"
| "initInviteFSM client_state_proceeding client_input_300_plus = Some (client_state_completed, Act_invite_final)"
| "initInviteFSM client_state_proceeding client_input_timer_a = Some (client_state_proceeding, NO_ACTION)"
| "initInviteFSM client_state_proceeding client_input_timer_b = Some (client_state_proceeding, NO_ACTION)"
| "initInviteFSM client_state_completed client_input_1xx = Some (client_state_completed, NO_ACTION)"
| "initInviteFSM client_state_completed client_input_2xx = Some (client_state_completed, NO_ACTION)"
| "initInviteFSM client_state_completed client_input_300_plus = Some (client_state_completed, Act_ack)"
| "initInviteFSM client_state_completed client_input_transport_err = Some (client_state_terminated, Act_trans_err)"
| "initInviteFSM client_state_completed client_input_timer_a = Some (client_state_completed, NO_ACTION)"
| "initInviteFSM client_state_completed client_input_timer_b = Some (client_state_completed, NO_ACTION)"
| "initInviteFSM client_state_completed client_input_timer_d = Some (client_state_terminated, Act_delete)"
| "initInviteFSM client_state_terminated client_input_1xx = Some (client_state_terminated, NO_ACTION)"
| "initInviteFSM client_state_terminated client_input_2xx = Some (client_state_terminated, NO_ACTION)"
| "initInviteFSM client_state_terminated client_input_300_plus = Some (client_state_terminated, NO_ACTION)"
| "initInviteFSM client_state_terminated client_input_timer_a = Some (client_state_terminated, NO_ACTION)"
| "initInviteFSM client_state_terminated client_input_timer_b = Some (client_state_terminated, NO_ACTION)"
| "initInviteFSM client_state_terminated client_input_timer_d = Some (client_state_terminated, NO_ACTION)"
| "initInviteFSM client_state_terminated client_input_delete = Some (client_state_terminated, Act_delete)"
| "initInviteFSM _ _ = None"

fun initNonInviteFSM :: "client_state \<Rightarrow> fsm_input \<Rightarrow> (client_state \<times> action) option" where
  "initNonInviteFSM client_state_calling client_input_1xx = Some (client_state_proceeding, Act_passup)"
| "initNonInviteFSM client_state_calling client_input_2xx = Some (client_state_completed, Act_non_invite_final)"
| "initNonInviteFSM client_state_calling client_input_300_plus = Some (client_state_completed, Act_non_invite_final)"
| "initNonInviteFSM client_state_calling client_input_timer_a = Some (client_state_calling, Act_non_invite_resend)"
| "initNonInviteFSM client_state_calling client_input_timer_b = Some (client_state_terminated, Act_timeout)"
| "initNonInviteFSM client_state_calling client_input_transport_err = Some (client_state_terminated, Act_trans_err)"
| "initNonInviteFSM client_state_proceeding client_input_1xx = Some (client_state_proceeding, Act_passup)"
| "initNonInviteFSM client_state_proceeding client_input_2xx = Some (client_state_completed, Act_non_invite_final)"
| "initNonInviteFSM client_state_proceeding client_input_300_plus = Some (client_state_completed, Act_non_invite_final)"
| "initNonInviteFSM client_state_proceeding client_input_timer_a = Some (client_state_proceeding, Act_non_invite_resend)"
| "initNonInviteFSM client_state_proceeding client_input_timer_b = Some (client_state_terminated, Act_timeout)"
| "initNonInviteFSM client_state_proceeding client_input_transport_err = Some (client_state_terminated, Act_trans_err)"
| "initNonInviteFSM client_state_completed client_input_1xx = Some (client_state_completed, NO_ACTION)"
| "initNonInviteFSM client_state_completed client_input_2xx = Some (client_state_completed, NO_ACTION)"
| "initNonInviteFSM client_state_completed client_input_300_plus = Some (client_state_completed, NO_ACTION)"
| "initNonInviteFSM client_state_completed client_input_timer_d = Some (client_state_terminated, Act_delete)"
| "initNonInviteFSM client_state_completed client_input_timer_a = Some (client_state_completed, NO_ACTION)"
| "initNonInviteFSM client_state_completed client_input_timer_b = Some (client_state_completed, NO_ACTION)"
| "initNonInviteFSM client_state_terminated client_input_1xx = Some (client_state_terminated, NO_ACTION)"
| "initNonInviteFSM client_state_terminated client_input_2xx = Some (client_state_terminated, NO_ACTION)"
| "initNonInviteFSM client_state_terminated client_input_300_plus = Some (client_state_terminated, NO_ACTION)"
| "initNonInviteFSM client_state_terminated client_input_timer_a = Some (client_state_terminated, NO_ACTION)"
| "initNonInviteFSM client_state_terminated client_input_timer_b = Some (client_state_terminated, NO_ACTION)"
| "initNonInviteFSM client_state_terminated client_input_timer_d = Some (client_state_terminated, NO_ACTION)"
| "initNonInviteFSM client_state_terminated client_input_delete = Some (client_state_terminated, Act_delete)"
| "initNonInviteFSM _ _ = None"

definition initFSM :: "clientTx \<Rightarrow> client_state \<Rightarrow> fsm_input \<Rightarrow> (client_state \<times> action) option" where
  \<comment> \<open>the table that \<^verbatim>\<open>initFSM\<close> installs in \<^verbatim>\<open>tx.fsm\<close>\<close>
  "initFSM tx = (if IsInvite (origin tx) then initInviteFSM else initNonInviteFSM)"

subsection \<open>Helpers of the common transaction\<close>

text \<open>
  Modelled from the spec: \<^verbatim>\<open>commonTx\<close> and its methods \<^verbatim>\<open>transportError\<close>,
  \<^verbatim>\<open>timeoutError\<close> and \<^verbatim>\<open>delete\<close>, and \<^verbatim>\<open>makeClientTxKey\<close>, are declared outside the
  sources. By the spec a transport error (built from \<^verbatim>\<open>lastErr\<close>) and the timeout of
  timer B are surfaced to the consumer, \<^verbatim>\<open>delete\<close> requests the deletion of the
  transaction, and the key is made of the branch parameter of the top \<^verbatim>\<open>Via\<close> and of
  the \<^verbatim>\<open>CSeq\<close> method, so that a request without them has no key.
\<close>

definition Origin :: "clientTx \<Rightarrow> Request" where
  "Origin tx = origin tx"

definition Destination :: "clientTx \<Rightarrow> string" where
  "Destination tx = dest tx"

definition transportError :: "clientTx \<Rightarrow> clientTx" where
  "transportError tx = tx\<lparr> errs := errs tx @ [TxTransportError (lastErr tx)] \<rparr>"

definition timeoutError :: "clientTx \<Rightarrow> clientTx" where
  "timeoutError tx = tx\<lparr> errs := errs tx @ [TxTimeoutError] \<rparr>"

definition delete :: "clientTx \<Rightarrow> clientTx" where
  "delete tx = tx\<lparr> deleted := True \<rparr>"

definition makeClientTxKey :: "Request \<Rightarrow> string option" where
  "makeClientTxKey req =
     (case first_ViaHop (ReqHeaders req) of
        None \<Rightarrow> None
      | Some hop \<Rightarrow>
          (case first_CSeq (ReqHeaders req) of
             None \<Rightarrow> None
           | Some (seqNo, methodName) \<Rightarrow>
               (case map_of (ViaParams hop) ''branch'' of
                  Some (Some branch) \<Rightarrow> Some (branch @ ''|'' @ methodName)
                | _ \<Rightarrow> None)))"

subsection \<open>Actions\<close>

text \<open>
  An action is a method of the transaction that the state machine runs inside a call of
  \<^verbatim>\<open>Spin\<close>. Its run ends in one of two ways: it returns an input to the machine
  (\<open>Returns None\<close> for \<^verbatim>\<open>fsm.NO_INPUT\<close>), or it calls \<^verbatim>\<open>tx.fsm.Spin\<close> itself
  (\<open>Calls_Spin\<close>), as \<^verbatim>\<open>resend\<close> and \<^verbatim>\<open>ack\<close> do with \<^verbatim>\<open>client_input_transport_err\<close> when
  \<^verbatim>\<open>Send\<close> has failed. The transaction that comes with either is the transaction at that
  moment; the statements that follow a call of \<^verbatim>\<open>Spin\<close> in an action are not run before
  that call returns. The result \<open>None\<close> is a run-time panic (a method called on a \<^verbatim>\<open>nil\<close>
  timer or response).
\<close>

datatype action_end = Returns "fsm_input option" | Calls_Spin fsm_input

definition resend :: "clientTx \<Rightarrow> clientTx \<times> fsm_input option" where
  \<comment> \<open>the transaction, and the input with which \<^verbatim>\<open>resend\<close> calls \<^verbatim>\<open>tx.fsm.Spin\<close>, if it does\<close>
  "resend tx =
     (let err = send_errs tx (length (sent tx));
          tx1 = tx\<lparr> sent := sent tx @ [(Destination tx, Origin tx)], lastErr := err \<rparr>
      in if err \<noteq> None then (tx1, Some client_input_transport_err) else (tx1, None))"

definition passUp :: "clientTx \<Rightarrow> clientTx" where
  "passUp tx =
     (case lastResp tx of
        Some res \<Rightarrow> tx\<lparr> msgs := msgs tx @ [res] \<rparr>
      | None \<Rightarrow> tx)"

definition ack_request :: "Request \<Rightarrow> nat \<times> string \<Rightarrow> ViaHop list \<Rightarrow> Response \<Rightarrow> Request" where
  \<comment> \<open>The request that \<^verbatim>\<open>ack\<close> builds from the original request, its \<^verbatim>\<open>CSeq\<close>, its
      first \<^verbatim>\<open>Via\<close> header and the last response, in the order of the statements.\<close>
  "ack_request orig cseq via res =
     (let ack0 = NewRequest ACK (Recipient orig) (ReqSipVersion orig) [] [];
          ack1 = CopyHeaders ''From'' (ReqHeaders orig) ack0;
          ack2 = CopyHeaders ''Call-ID'' (ReqHeaders orig) ack1;
          ack3 = CopyHeaders ''Route'' (ReqHeaders orig) ack2;
          ack4 = AppendHeader ack3 (CSeq (fst cseq) ACK);
          ack5 = AppendHeader ack4 (ViaHeader via)
      in CopyHeaders ''To'' (ResHeaders res) ack5)"

definition ack :: "clientTx \<Rightarrow> (clientTx \<times> fsm_input option) option" where
  \<comment> \<open>The transaction, and the input with which \<^verbatim>\<open>ack\<close> calls \<^verbatim>\<open>tx.fsm.Spin\<close>, if it does.
      \<^verbatim>\<open>func (tx clientTx) ack()\<close> has a value receiver: it works on a copy of the
      transaction. The call of \<^verbatim>\<open>Send\<close> on the transport layer and the call of \<^verbatim>\<open>Spin\<close>
      on the state machine go through references and are seen by the transaction; the
      assignment \<^verbatim>\<open>tx.lastErr = err\<close> changes the copy only, which no one reads
      afterwards.\<close>
  "ack tx =
     (case first_CSeq (ReqHeaders (Origin tx)) of
        None \<Rightarrow> Some (tx, None)
      | Some cseq \<Rightarrow>
          (case first_Via (ReqHeaders (origin tx)) of
             None \<Rightarrow> Some (tx, None)
           | Some via \<Rightarrow>
               (case lastResp tx of
                  None \<Rightarrow> None
                | Some res \<Rightarrow>
                    (let err = send_errs tx (length (sent tx));
                         tx1 = tx\<lparr> sent := sent tx @ [(dest tx, ack_request (Origin tx) cseq via res)] \<rparr>;
                         copy = tx1\<lparr> lastErr := err \<rparr>
                     in if err \<noteq> None then Some (tx1, Some client_input_transport_err)
                        else Some (tx1, None)))))"

definition act_invite_resend :: "clientTx \<Rightarrow> (clientTx \<times> action_end) option" where
  "act_invite_resend tx =
     (let tx1 = tx\<lparr> timer_a_time := int64 (timer_a_time tx * 2) \<rparr>
      in case timer_a tx1 of
           None \<Rightarrow> None
         | Some _ \<Rightarrow>
             (case resend (tx1\<lparr> timer_a := Some (timer_a_time tx1) \<rparr>) of
                (tx2, Some i) \<Rightarrow> Some (tx2, Calls_Spin i)
              | (tx2, None) \<Rightarrow> Some (tx2, Returns None)))"

definition act_non_invite_resend :: "clientTx \<Rightarrow> (clientTx \<times> action_end) option" where
  "act_non_invite_resend tx =
     (let tx1 = tx\<lparr> timer_a_time := int64 (timer_a_time tx * 2) \<rparr>;
          tx2 = (if timer_a_time tx1 > T2 then tx1\<lparr> timer_a_time := T2 \<rparr> else tx1)
      in case timer_a tx2 of
           None \<Rightarrow> None
         | Some _ \<Rightarrow>
             (case resend (tx2\<lparr> timer_a := Some (timer_a_time tx2) \<rparr>) of
                (tx3, Some i) \<Rightarrow> Some (tx3, Calls_Spin i)
              | (tx3, None) \<Rightarrow> Some (tx3, Returns None)))"

definition act_passup :: "clientTx \<Rightarrow> (clientTx \<times> action_end) option" where
  "act_passup tx = Some (passUp tx, Returns None)"

definition act_invite_final :: "clientTx \<Rightarrow> (clientTx \<times> action_end) option" where
  "act_invite_final tx =
     (case ack (passUp tx) of
        None \<Rightarrow> None
      | Some (tx1, Some i) \<Rightarrow> Some (tx1, Calls_Spin i)
      | Some (tx1, None) \<Rightarrow> Some (tx1\<lparr> timer_d := Some (timer_d_time tx1) \<rparr>, Returns None))"

definition act_non_invite_final :: "clientTx \<Rightarrow> (clientTx \<times> action_end) option" where
  "act_non_invite_final tx =
     (let tx1 = passUp tx in Some (tx1\<lparr> timer_d := Some (timer_d_time tx1) \<rparr>, Returns None))"

definition act_ack :: "clientTx \<Rightarrow> (clientTx \<times> action_end) option" where
  "act_ack tx =
     (case ack tx of
        None \<Rightarrow> None
      | Some (tx1, Some i) \<Rightarrow> Some (tx1, Calls_Spin i)
      | Some (tx1, None) \<Rightarrow> Some (tx1, Returns None))"

definition act_trans_err :: "clientTx \<Rightarrow> (clientTx \<times> action_end) option" where
  "act_trans_err tx = Some (transportError tx, Returns (Some client_input_delete))"

definition act_timeout :: "clientTx \<Rightarrow> (clientTx \<times> action_end) option" where
  "act_timeout tx = Some (timeoutError tx, Returns (Some client_input_delete))"

definition act_passup_delete :: "clientTx \<Rightarrow> (clientTx \<times> action_end) option" where
  "act_passup_delete tx = Some (passUp tx, Returns (Some client_input_delete))"

definition act_delete :: "clientTx \<Rightarrow> (clientTx \<times> action_end) option" where
  "act_delete tx = Some (delete tx, Returns None)"

fun run_action :: "action \<Rightarrow> clientTx \<Rightarrow> (clientTx \<times> action_end) option" where
  "run_action NO_ACTION tx = Some (tx, Returns None)"
| "run_action Act_passup tx = act_passup tx"
| "run_action Act_passup_delete tx = act_passup_delete tx"
| "run_action Act_invite_final tx = act_invite_final tx"
| "run_action Act_non_invite_final tx = act_non_invite_final tx"
| "run_action Act_invite_resend tx = act_invite_resend tx"
| "run_action Act_non_invite_resend tx = act_non_invite_resend tx"
| "run_action Act_ack tx = act_ack tx"
| "run_action Act_trans_err tx = act_trans_err tx"
| "run_action Act_timeout tx = act_timeout tx"
| "run_action Act_delete tx = act_delete tx"

subsection \<open>Spinning the state machine\<close>

text \<open>
  Modelled from the spec: the state machine library is a dependency outside the
  sources. By the spec all inputs funnel through \<^verbatim>\<open>Spin\<close>, which is atomic against
  itself: a call of \<^verbatim>\<open>Spin\<close> holds the machine until it returns, and a call made in the
  meantime waits for it. Inside a call, the cell of the current state and the input gives
  the next state and the action; the machine moves to the next state and runs the
  action (\<open>spinOnce\<close>); an input that the action returns is taken in the same way,
  within the same call, until an action returns \<^verbatim>\<open>fsm.NO_INPUT\<close>. An input without a
  cell in the current state changes nothing.

  An action that calls \<^verbatim>\<open>Spin\<close> itself waits for the very call that runs it: that call
  never returns (\<open>Blocked\<close>), the input it was given is never taken, and the rest of
  the action is never run. The transaction stays as it was at that moment.
\<close>

datatype spin_result =
    Returned clientTx   \<comment> \<open>the call has returned and has left the transaction so\<close>
  | Blocked clientTx    \<comment> \<open>the call never returns; the transaction as it is left\<close>
  | Panicked

definition spinOnce :: "clientTx \<Rightarrow> fsm_input \<Rightarrow> (clientTx \<times> action_end) option" where
  "spinOnce tx i =
     (case initFSM tx (fsm_state tx) i of
        None \<Rightarrow> Some (tx, Returns None)
      | Some (nxt, act) \<Rightarrow> run_action act (tx\<lparr> fsm_state := nxt \<rparr>))"

fun input_rank :: "fsm_input \<Rightarrow> nat" where
  "input_rank client_input_delete = 0"
| "input_rank _ = 1"

lemma run_action_returns:
  "run_action act tx = Some (tx', Returns (Some j)) \<Longrightarrow>
     j = client_input_delete \<and> act \<noteq> Act_delete"
  by (cases act)
     (auto simp: act_passup_def act_passup_delete_def act_invite_final_def
                 act_non_invite_final_def act_invite_resend_def act_non_invite_resend_def
                 act_ack_def act_trans_err_def act_timeout_def act_delete_def Let_def
           split: option.splits if_splits prod.splits)

lemma initInviteFSM_delete:
  "initInviteFSM s client_input_delete = Some (nxt, act) \<Longrightarrow> act = Act_delete"
  by (cases s) auto

lemma initNonInviteFSM_delete:
  "initNonInviteFSM s client_input_delete = Some (nxt, act) \<Longrightarrow> act = Act_delete"
  by (cases s) auto

lemma spinOnce_rank:
  assumes "spinOnce tx i = Some (tx', Returns (Some j))"
  shows "input_rank j < input_rank i"
proof (cases "initFSM tx (fsm_state tx) i")
  case None
  with assms show ?thesis by (simp add: spinOnce_def)
next
  case (Some cell)
  obtain nxt act where cell: "cell = (nxt, act)" by (cases cell)
  from assms Some cell
  have run: "run_action act (tx\<lparr> fsm_state := nxt \<rparr>) = Some (tx', Returns (Some j))"
    by (simp add: spinOnce_def)
  from run_action_returns [OF run] have j: "j = client_input_delete" and act: "act \<noteq> Act_delete"
    by simp_all
  from Some cell act have "i \<noteq> client_input_delete"
    using initInviteFSM_delete initNonInviteFSM_delete
    by (auto simp: initFSM_def split: if_splits)
  with j show ?thesis by (cases i) simp_all
qed

function Spin :: "clientTx \<Rightarrow> fsm_input \<Rightarrow> spin_result" where
  "Spin tx i =
     (case spinOnce tx i of
        None \<Rightarrow> Panicked
      | Some (tx', Calls_Spin j) \<Rightarrow> Blocked tx'
      | Some (tx', Returns None) \<Rightarrow> Returned tx'
      | Some (tx', Returns (Some j)) \<Rightarrow> Spin tx' j)"
  by pat_completeness auto
termination
proof (relation "measure (\<lambda>(tx, i). input_rank i)")
  show "wf (measure (\<lambda>(tx, i). input_rank i))"
    by simp
next
  fix tx :: clientTx and i x2 x y x1 x2a
  assume "spinOnce tx i = Some x2" and "(x, y) = x2" and "y = Returns x1" and "x1 = Some x2a"
  then have "spinOnce tx i = Some (x, Returns (Some x2a))" by simp
  from spinOnce_rank [OF this]
  show "((x, x2a), (tx, i)) \<in> measure (\<lambda>(tx, i). input_rank i)"
    by simp
qed

declare Spin.simps [simp del]

subsection \<open>Creation, reception and timer events\<close>

definition NewClientTx ::
  "Request \<Rightarrow> string \<Rightarrow> (string \<Rightarrow> bool) \<Rightarrow> (nat \<Rightarrow> transport_error option) \<Rightarrow> clientTx option" where
  \<comment> \<open>\<open>isReliable\<close> is \<^verbatim>\<open>tpl.IsReliable\<close> and \<open>sendErrs\<close> the answers of \<^verbatim>\<open>tpl.Send\<close>;
      \<open>None\<close> is the error returned when the request has no transaction key.\<close>
  "NewClientTx orig d isReliable sendErrs =
     (case makeClientTxKey orig of
        None \<Rightarrow> None
      | Some txKey \<Rightarrow>
          (let rel = (case first_ViaHop (ReqHeaders orig) of
                        Some viaHop \<Rightarrow> isReliable (Transport viaHop)
                      | None \<Rightarrow> False)
           in Some \<lparr> origin = orig, dest = d, lastResp = None, lastErr = None,
                     timer_a_time = (if \<not> rel then Timer_A else 0),
                     timer_a = (if \<not> rel then Some Timer_A else None),
                     timer_b = Some Timer_B,
                     timer_d_time = (if rel then 0 else Timer_D),
                     timer_d = None,
                     reliable = rel,
                     fsm_state = client_state_calling,
                     msgs = [], errs = [], sent = [], deleted = False,
                     send_errs = sendErrs \<rparr>))"

definition Receive :: "clientTx \<Rightarrow> Message \<Rightarrow> spin_result \<times> tx_error option" where
  \<comment> \<open>The course of the call and, when it returns, the error it returns.\<close>
  "Receive tx msg =
     (case msg of
        RequestMsg req \<Rightarrow> (Returned tx, Some UnexpectedMessageError)
      | ResponseMsg res \<Rightarrow>
          (let tx1 = tx\<lparr> lastResp := Some res \<rparr>;
               input = (if IsProvisional res then client_input_1xx
                        else if IsSuccess res then client_input_2xx
                        else client_input_300_plus)
           in (Spin tx1 input, None)))"

text \<open>
  What can happen to a transaction once it is created: a message is handed to
  \<^verbatim>\<open>Receive\<close>, or one of its timers fires and its callback spins the timer's input.
  A timer that does not exist cannot fire.
\<close>

datatype event = Receives Message | Timer_a_fires | Timer_b_fires | Timer_d_fires

definition step :: "clientTx \<Rightarrow> event \<Rightarrow> spin_result" where
  "step tx ev =
     (case ev of
        Receives msg \<Rightarrow> fst (Receive tx msg)
      | Timer_a_fires \<Rightarrow>
          (if timer_a tx = None then Returned tx else Spin tx client_input_timer_a)
      | Timer_b_fires \<Rightarrow>
          (if timer_b tx = None then Returned tx else Spin tx client_input_timer_b)
      | Timer_d_fires \<Rightarrow>
          (if timer_d tx = None then Returned tx else Spin tx client_input_timer_d))"

text \<open>
  Once a call of \<^verbatim>\<open>Spin\<close> is blocked the machine is never released, and every later call
  of \<^verbatim>\<open>Spin\<close> waits as well: a timer callback does nothing else, and \<^verbatim>\<open>Receive\<close> has
  recorded the response as the last response before it calls \<^verbatim>\<open>Spin\<close>.
\<close>

definition step_blocked :: "clientTx \<Rightarrow> event \<Rightarrow> clientTx" where
  "step_blocked tx ev =
     (case ev of
        Receives (ResponseMsg res) \<Rightarrow> tx\<lparr> lastResp := Some res \<rparr>
      | _ \<Rightarrow> tx)"

fun run_blocked :: "clientTx \<Rightarrow> event list \<Rightarrow> clientTx" where
  "run_blocked tx [] = tx"
| "run_blocked tx (ev # evs) = run_blocked (step_blocked tx ev) evs"

fun run :: "clientTx \<Rightarrow> event list \<Rightarrow> spin_result" where
  \<comment> \<open>\<open>Returned\<close> when every call has returned, \<open>Blocked\<close> when one of them has not\<close>
  "run tx [] = Returned tx"
| "run tx (ev # evs) =
     (case step tx ev of
        Returned tx' \<Rightarrow> run tx' evs
      | Blocked tx' \<Rightarrow> Blocked (run_blocked tx' evs)
      | Panicked \<Rightarrow> Panicked)"

definition final_responses :: "clientTx \<Rightarrow> Response list" where
  \<comment> \<open>the final (not provisional) responses that have reached the consumer\<close>
  "final_responses tx = filter (\<lambda>res. \<not> IsProvisional res) (msgs tx)"

definition signals_inv :: "clientTx \<Rightarrow> bool" where
  \<comment> \<open>what each state of the machine allows to have reached the consumer\<close>
  "signals_inv tx =
     (case fsm_state tx of
        client_state_calling \<Rightarrow> final_responses tx = [] \<and> errs tx = []
      | client_state_proceeding \<Rightarrow> final_responses tx = [] \<and> errs tx = []
      | client_state_completed \<Rightarrow> length (final_responses tx) \<le> 1 \<and> errs tx = []
      | client_state_terminated \<Rightarrow> length (final_responses tx) + length (errs tx) \<le> 1)"

subsection \<open>Example messages\<close>

abbreviation example_uri :: Uri where
  "example_uri \<equiv>
     SipUriOf \<lparr> IsEncrypted = False, User = Some ''bob'', Password = None,
                Host = ''example.com'', Port = None, UriParams = [], Headers = [] \<rparr>"

abbreviation example_via :: ViaHop where
  "example_via \<equiv>
     \<lparr> ProtocolName = ''SIP'', ProtocolVersion = ''2.0'', Transport = ''UDP'',
       ViaHost = ''pc.example.com'', ViaPort = Some 5060,
       ViaParams = [(''branch'', Some ''z9hG4bK-1'')] \<rparr>"

abbreviation example_invite :: Request where
  "example_invite \<equiv>
     \<lparr> Method = ''INVITE'', Recipient = example_uri, ReqSipVersion = ''SIP/2.0'',
       ReqHeaders =
         [ViaHeader [example_via],
          OtherHeader ''Route'' ''<sip:proxy.example.com;lr>'',
          OtherHeader ''To'' ''<sip:bob@example.com>'',
          OtherHeader ''From'' ''<sip:alice@example.com>;tag=1'',
          OtherHeader ''Call-ID'' ''a@b'',
          CSeq 1 ''INVITE''],
       ReqBody = ''v=0'' \<rparr>"

abbreviation example_options :: Request where
  "example_options \<equiv>
     \<lparr> Method = ''OPTIONS'', Recipient = example_uri, ReqSipVersion = ''SIP/2.0'',
       ReqHeaders =
         [ViaHeader [example_via],
          OtherHeader ''To'' ''<sip:bob@example.com>'',
          OtherHeader ''From'' ''<sip:alice@example.com>;tag=1'',
          OtherHeader ''Call-ID'' ''a@b'',
          CSeq 2 ''OPTIONS''],
       ReqBody = [] \<rparr>"

abbreviation example_404 :: Response where
  "example_404 \<equiv>
     \<lparr> ResSipVersion = ''SIP/2.0'', StatusCode = 404, Reason = ''Not Found'',
       ResHeaders =
         [ViaHeader [example_via],
          OtherHeader ''To'' ''<sip:bob@example.com>;tag=9'',
          OtherHeader ''From'' ''<sip:alice@example.com>;tag=1'',
          OtherHeader ''Call-ID'' ''a@b'',
          CSeq 1 ''INVITE''],
       ResBody = [] \<rparr>"

abbreviation example_ack :: Request where
  "example_ack \<equiv>
     \<lparr> Method = ''ACK'', Recipient = example_uri, ReqSipVersion = ''SIP/2.0'',
       ReqHeaders =
         [OtherHeader ''From'' ''<sip:alice@example.com>;tag=1'',
          OtherHeader ''Call-ID'' ''a@b'',
          OtherHeader ''Route'' ''<sip:proxy.example.com;lr>'',
          CSeq 1 ''ACK'',
          ViaHeader [example_via],
          OtherHeader ''To'' ''<sip:bob@example.com>;tag=9''],
       ReqBody = [] \<rparr>"

abbreviation example_tx :: "Request \<Rightarrow> (nat \<Rightarrow> transport_error option) \<Rightarrow> clientTx" where
  \<comment> \<open>the transaction that \<^verbatim>\<open>NewClientTx\<close> creates for a request over an unreliable transport\<close>
  "example_tx orig sendErrs \<equiv>
     \<lparr> origin = orig, dest = ''pc2.example.com:5060'', lastResp = None, lastErr = None,
       timer_a_time = 500000000, timer_a = Some 500000000, timer_b = Some 32000000000,
       timer_d_time = 32000000000, timer_d = None, reliable = False,
       fsm_state = client_state_calling, msgs = [], errs = [], sent = [], deleted = False,
       send_errs = sendErrs \<rparr>"

section \<open>Properties\<close>

subsection \<open>strings.Index\<close>

lemma index_from_no_match:
  "sub \<noteq> [] \<Longrightarrow> \<not> sublist sub s \<Longrightarrow> index_from sub s i = -1"
proof (induction s arbitrary: i)
  case Nil
  then show ?case by simp
next
  case (Cons c cs)
  have "take (length sub) (c # cs) \<noteq> sub"
  proof
    assume h: "take (length sub) (c # cs) = sub"
    have "c # cs = [] @ take (length sub) (c # cs) @ drop (length sub) (c # cs)"
      by simp
    with h have "c # cs = [] @ sub @ drop (length sub) (c # cs)" by simp
    then have "sublist sub (c # cs)" unfolding sublist_def by blast
    with Cons.prems show False by simp
  qed
  moreover have "\<not> sublist sub cs"
    using Cons.prems(2) by (meson sublist_Cons_right)
  ultimately show ?case using Cons.IH Cons.prems(1) by simp
qed

lemma strings_Index_no_match:
  "sub \<noteq> [] \<Longrightarrow> \<not> sublist sub s \<Longrightarrow> strings_Index s sub = -1"
  by (simp add: strings_Index_def index_from_no_match)

subsection \<open>Parser: writes after a terminal error, datagram body length\<close>

lemma Write_ignores_terminalErr:
  "snd (Write (setError p err) data) = snd (Write p data)
   \<and> terminalErr (fst (Write p data)) = terminalErr p"
  by (simp add: Write_def setError_def Let_def)

text \<open>
  C1. The claim: once the parse task has recorded a terminal error (for instance the
  \<^verbatim>\<open>MalformedMessageError\<close> of a stream-mode message without \<^verbatim>\<open>Content-Length\<close>),
  every \<^verbatim>\<open>Write\<close> before \<^verbatim>\<open>Reset()\<close> returns that error with \<open>n = 0\<close>.
  The code does not: \<^verbatim>\<open>Write\<close> never reads \<^verbatim>\<open>terminalErr\<close>. Take a new stream-mode
  parser on which the parse task has met a message without \<^verbatim>\<open>Content-Length\<close>: the
  terminal error is recorded and published; writing one byte is then accepted, the
  byte is queued and the call returns \<open>n = 1\<close> with no error.
\<close>

theorem C1_write_after_terminal_error_is_accepted:
  "fst (parse_contentLength (NewParser True) []) =
     \<lparr> streamed = True, input = [], bodyLengths = [], errs_sent = [MalformedMessageError],
       terminalErr = Some MalformedMessageError, stopped = False \<rparr>
   \<and> Write (fst (parse_contentLength (NewParser True) [])) ''x'' =
     (\<lparr> streamed = True, input = ''x'', bodyLengths = [], errs_sent = [MalformedMessageError],
        terminalErr = Some MalformedMessageError, stopped = False \<rparr>,
      Inr 1)"
  by (simp add: Write_def parse_contentLength_def setError_def NewParser_def)

text \<open>
  C10. In datagram mode (\<^verbatim>\<open>streamed = false\<close>), a \<^verbatim>\<open>Write\<close> on a parser that was
  not stopped, with data that contains no \<open>CRLF CRLF\<close>, succeeds and hands the body
  length \<open>len(data) - 3\<close> to the parse task (together with \<open>len(data)\<close>); for data of
  more than three bytes this length is positive.
\<close>

theorem C10_datagram_body_length_without_blank_line:
  assumes "\<not> streamed p" and "\<not> stopped p" and "\<not> sublist CRLFCRLF data"
  shows "Write p data =
           (p\<lparr> bodyLengths := bodyLengths p @ [(int (length data) - 3, int (length data))],
               input := input p @ data \<rparr>,
            Inr (int (length data)))
         \<and> getBodyLength data = int (length data) - 3
         \<and> (3 < length data \<longrightarrow> 0 < getBodyLength data)"
  using assms
  by (simp add: Write_def getBodyLength_def strings_Index_no_match CRLFCRLF_def Let_def)

theorem C10_datagram_body_length_witness:
  "\<not> streamed (NewParser False) \<and> \<not> stopped (NewParser False)
   \<and> \<not> sublist CRLFCRLF (''OPTIONS sip:b SIP/2.0'' @ [CR, LF] @ ''To: x'' @ [CR, LF])
   \<and> Write (NewParser False) (''OPTIONS sip:b SIP/2.0'' @ [CR, LF] @ ''To: x'' @ [CR, LF]) =
        (\<lparr> streamed = False,
           input = ''OPTIONS sip:b SIP/2.0'' @ [CR, LF] @ ''To: x'' @ [CR, LF],
           bodyLengths = [(27, 30)], errs_sent = [], terminalErr = None, stopped = False \<rparr>,
         Inr 30)
   \<and> getBodyLength (''OPTIONS sip:b SIP/2.0'' @ [CR, LF] @ ''To: x'' @ [CR, LF]) = 27"
  using C10_datagram_body_length_without_blank_line
          [of "NewParser False" "''OPTIONS sip:b SIP/2.0'' @ [CR, LF] @ ''To: x'' @ [CR, LF]"]
  by (simp add: NewParser_def CRLFCRLF_def CR_def LF_def sublist_code)

subsection \<open>Status line\<close>

lemma strconv_ParseUint_bound: "strconv_ParseUint s b = Some v \<Longrightarrow> v < 2 ^ b"
  by (auto simp: strconv_ParseUint_def split: if_splits)

text \<open>
  C7, as the code has it. A status line that \<^verbatim>\<open>parseStatusLine\<close> accepts has at least
  three space-separated fields; its version is the first field and its status code is
  the value of the second field read as an unsigned 16-bit decimal, so it lies in
  \<open>0..65535\<close> (no bound of 699 is applied). Conversely every line with at least three
  fields whose second field is such a number is accepted, however many spaces follow
  the status code.
\<close>

theorem C7_status_line_code_is_uint16:
  "(parseStatusLine l = Inr (ver, code, reason) \<longrightarrow>
      code \<le> 65535 \<and> 3 \<le> length (strings_Split l (CHR '' ''))
      \<and> ver = strings_Split l (CHR '' '') ! 0
      \<and> strconv_ParseUint (strings_Split l (CHR '' '') ! 1) 16 = Some code)
   \<and> (3 \<le> length (strings_Split l (CHR '' ''))
        \<and> strconv_ParseUint (strings_Split l (CHR '' '') ! 1) 16 = Some c \<longrightarrow>
       (\<exists>r. parseStatusLine l = Inr (strings_Split l (CHR '' '') ! 0, c, r)))"
  by (auto simp: parseStatusLine_def Let_def dest: strconv_ParseUint_bound
           split: option.splits if_splits)

theorem C7_status_line_witness:
  "parseStatusLine ''SIP/2.0 200 OK'' = Inr (''SIP/2.0'', 200, ''OK'')
   \<and> (200::nat) \<le> 65535
   \<and> 3 \<le> length (strings_Split ''SIP/2.0 486 Busy Here Right Now'' (CHR '' ''))
   \<and> strconv_ParseUint (strings_Split ''SIP/2.0 486 Busy Here Right Now'' (CHR '' '') ! 1) 16 = Some 486
   \<and> (\<exists>r. parseStatusLine ''SIP/2.0 486 Busy Here Right Now'' = Inr (''SIP/2.0'', 486, r))"
  using C7_status_line_code_is_uint16 [of "''SIP/2.0 200 OK''" "''SIP/2.0''" 200 "''OK''" 200]
        C7_status_line_code_is_uint16
          [of "''SIP/2.0 486 Busy Here Right Now''" "''SIP/2.0''" 486 "''BusyHereRightNow''" 486]
  by (simp add: parseStatusLine_def strconv_ParseUint_def is_digit_def digits_value_def)

text \<open>
  The claim C7 as stated fails on the accepted status line \<^verbatim>\<open>SIP/2.0 999 Not Found\<close>: the
  parsed status code is 999, above 699, and the parsed reason phrase is not the
  remainder of the line.
\<close>

theorem C7_status_line_counterexample:
  "parseStatusLine ''SIP/2.0 999 Not Found'' = Inr (''SIP/2.0'', 999, ''NotFound'')
   \<and> \<not> (999::nat) \<le> 699 \<and> ''NotFound'' \<noteq> ''Not Found''"
  by (simp add: parseStatusLine_def strconv_ParseUint_def is_digit_def digits_value_def)

subsection \<open>Connection pool\<close>

text \<open>
  C4, as the code has it. \<^verbatim>\<open>Add(k, c, ttl)\<close> fails exactly when the context of the pool
  reports an error (its cancellation has fired), and then leaves the pool as it is.
  After a successful \<^verbatim>\<open>Add\<close>, \<^verbatim>\<open>Get(k)\<close> reports the key as present; the connection it
  returns is \<open>c\<close> when \<open>k\<close> was unknown before the call, and the connection already
  bound to \<open>k\<close> when it was known: the known-key branch only calls \<^verbatim>\<open>Update(ttl)\<close>,
  which moves the expiry of the existing handler and keeps its connection.
\<close>

theorem C4_add_then_get:
  "(snd (Add now pool k c ttl) \<noteq> None \<longleftrightarrow> ctx_err pool \<noteq> None)
   \<and> (ctx_err pool \<noteq> None \<longrightarrow> fst (Add now pool k c ttl) = pool)
   \<and> (snd (Add now pool k c ttl) = None \<longrightarrow>
        Get (fst (Add now pool k c ttl)) k =
          (case getHandler pool k of
             None \<Rightarrow> (Some c, True)
           | Some handler \<Rightarrow> (Some (Connection handler), True))
        \<and> (case getHandler pool k of
              None \<Rightarrow> True
            | Some handler \<Rightarrow>
                map_option Expiries (getHandler (fst (Add now pool k c ttl)) k) = Some (now + ttl)))"
  by (auto simp: Add_def Get_def getHandler_def addHandler_def Update_def Connection_def
                 Expiries_def NewConnectionHandler_def
           split: option.splits)

theorem C4_add_then_get_witness:
  "snd (Add 5 (NewConnectionPool :: (nat, string) connectionPool) 1 ''c1'' 30) = None
   \<and> Get (fst (Add 5 (NewConnectionPool :: (nat, string) connectionPool) 1 ''c1'' 30)) 1
       = (Some ''c1'', True)
   \<and> ctx_err (NewConnectionPool\<lparr> ctx_err := Some Canceled \<rparr> :: (nat, string) connectionPool) \<noteq> None
   \<and> fst (Add 5 (NewConnectionPool\<lparr> ctx_err := Some Canceled \<rparr> :: (nat, string) connectionPool)
            1 ''c1'' 30)
       = NewConnectionPool\<lparr> ctx_err := Some Canceled \<rparr>"
  using C4_add_then_get [of 5 "NewConnectionPool :: (nat, string) connectionPool" 1 "''c1''" 30]
        C4_add_then_get
          [of 5 "NewConnectionPool\<lparr> ctx_err := Some Canceled \<rparr> :: (nat, string) connectionPool"
              1 "''c1''" 30]
  by (simp add: NewConnectionPool_def getHandler_def)

text \<open>
  The claim C4 as stated fails when the key is already bound to another connection: after
  \<^verbatim>\<open>Add(1, "c1", 30)\<close> and a successful \<^verbatim>\<open>Add(1, "c2", 30)\<close>, \<^verbatim>\<open>Get(1)\<close> still returns
  the first connection.
\<close>

theorem C4_add_then_get_counterexample:
  "snd (Add 6 (fst (Add 5 (NewConnectionPool :: (nat, string) connectionPool) 1 ''c1'' 30))
          1 ''c2'' 30) = None
   \<and> Get (fst (Add 6 (fst (Add 5 (NewConnectionPool :: (nat, string) connectionPool) 1 ''c1'' 30))
                 1 ''c2'' 30)) 1
       = (Some ''c1'', True)
   \<and> (Some ''c1'', True) \<noteq> (Some ''c2'', True)"
  by (simp add: Add_def Get_def getHandler_def addHandler_def Update_def Connection_def
                NewConnectionHandler_def NewConnectionPool_def)

subsection \<open>Connection handler expiry\<close>

lemma observed_expiries_eq:
  "observed_expiries handler calls = map (\<lambda>(now, ttl). now + ttl) calls"
  by (induction calls arbitrary: handler) (auto simp: Expiries_def Update_def)

lemma sorted_sums:
  "sorted (map fst calls) \<Longrightarrow> sorted (map snd calls) \<Longrightarrow>
   sorted (map (\<lambda>(now, ttl). now + ttl) (calls :: (int \<times> int) list))"
proof (induction calls)
  case Nil
  then show ?case by simp
next
  case (Cons a calls)
  then show ?case by (cases a) (fastforce simp: add_mono)
qed

text \<open>
  C9, as the code has it. \<^verbatim>\<open>Update(ttl)\<close> sets the expiry instant to the clock reading
  plus \<open>ttl\<close>, whatever the instant was before: after any sequence of calls the observed
  instants are these sums. They never move backward when neither the clock readings
  nor the \<open>ttl\<close> arguments decrease along the sequence, starting from the creation of
  the handler.
\<close>

theorem C9_update_sets_expiry:
  "observed_expiries handler calls = map (\<lambda>(now, ttl). now + ttl) calls
   \<and> (sorted (now0 # map fst calls) \<and> sorted (ttl0 # map snd calls) \<longrightarrow>
        sorted (Expiries (NewConnectionHandler now0 k c ttl0)
                # observed_expiries (NewConnectionHandler now0 k c ttl0) calls))"
proof -
  have "sorted (map (\<lambda>(now, ttl). now + ttl) ((now0, ttl0) # calls))"
    if "sorted (now0 # map fst calls)" "sorted (ttl0 # map snd calls)"
    using that sorted_sums [of "(now0, ttl0) # calls"] by simp
  then show ?thesis
    by (simp add: observed_expiries_eq Expiries_def NewConnectionHandler_def)
qed

theorem C9_update_sets_expiry_witness:
  "sorted ((0::int) # map fst [(1, 10), (2, 10)]) \<and> sorted ((10::int) # map snd [(1, 10), (2, 10)])
   \<and> observed_expiries (NewConnectionHandler 0 (7::nat) ''c1'' 10) [(1, 10), (2, 10)] = [11, 12]
   \<and> sorted (Expiries (NewConnectionHandler 0 (7::nat) ''c1'' 10)
              # observed_expiries (NewConnectionHandler 0 (7::nat) ''c1'' 10) [(1, 10), (2, 10)])"
  using C9_update_sets_expiry
          [of "NewConnectionHandler 0 (7::nat) ''c1'' 10" "[(1, 10), (2, 10)]" 0 10 7 "''c1''"]
  by simp

text \<open>
  The claim C9 as stated fails: a handler created at instant 0 with a ttl of 10 expires at
  10; \<^verbatim>\<open>Update(1)\<close> at instant 1 moves the expiry back to 2.
\<close>

theorem C9_update_counterexample:
  "Expiries (NewConnectionHandler 0 (7::nat) ''c1'' 10) = 10
   \<and> Expiries (Update 1 (NewConnectionHandler 0 (7::nat) ''c1'' 10) 1) = 2
   \<and> \<not> Expiries (NewConnectionHandler 0 (7::nat) ''c1'' 10)
        \<le> Expiries (Update 1 (NewConnectionHandler 0 (7::nat) ''c1'' 10) 1)"
  by (simp add: Expiries_def Update_def NewConnectionHandler_def)

subsection \<open>Key-value parameters\<close>

lemmas addr_eval =
  parseAddressHeader_def parseAddressValues_def parseAddressValue_def parseAddressValue_uri_def
  ParseUri_def ParseSipUri_def ParseSipUri_user_def ParseSipUri_host_def ParseSipUri_params_def
  parseHostPort_def go_slice_def go_slice_from_def go_index_def bind_res_def
  findUnescaped_def findAnyUnescaped_def quotesDelim_def
  strings_TrimSpace_def space_runes_def trim_runes.simps strings_ToLower_def ascii_lower_def
  strings_Index_def strings_Contains_def string_of_byte_def
  parseParams_def parseStart_def parseStep_def NewParams_def abnfWs_def params_Length_def
  strconv_ParseUint_def is_digit_def digits_value_def Let_def

lemma scan_parseLoop:
  "scan sep e q s st pre rest = Some st' \<Longrightarrow>
   parseLoop sep e q s st (pre @ rest) = parseLoop sep e q s st' rest"
  by (induction pre arbitrary: st) (auto split: pp_step.splits)

lemma list_all_params_Add:
  "list_all P ps \<Longrightarrow> P (k, v) \<Longrightarrow> list_all P (params_Add ps k v)"
  by (induction ps) auto

lemma parseStep_no_empty_key:
  assumes "\<not> s" and "parseStep sep e q s st c rest = Continue st'"
    and "list_all (\<lambda>p. fst p \<noteq> []) (pp_params st)" and "\<not> parsingKey st \<longrightarrow> pp_key st \<noteq> []"
  shows "list_all (\<lambda>p. fst p \<noteq> []) (pp_params st') \<and> (\<not> parsingKey st' \<longrightarrow> pp_key st' \<noteq> [])"
  using assms
  by (auto simp: parseStep_def list_all_params_Add split: if_splits)

lemma parseLoop_no_empty_key:
  assumes "\<not> s"
  shows "parseLoop sep e q s st cs = Inr st' \<Longrightarrow>
    list_all (\<lambda>p. fst p \<noteq> []) (pp_params st) \<Longrightarrow> (\<not> parsingKey st \<longrightarrow> pp_key st \<noteq> []) \<Longrightarrow>
    list_all (\<lambda>p. fst p \<noteq> []) (pp_params st') \<and> (\<not> parsingKey st' \<longrightarrow> pp_key st' \<noteq> [])"
proof (induction cs arbitrary: st)
  case Nil
  then show ?case by simp
next
  case (Cons c cs)
  show ?case
  proof (cases "parseStep sep e q s st c cs")
    case (Continue st1)
    from parseStep_no_empty_key [OF assms Continue Cons.prems(2) Cons.prems(3)]
    have inv: "list_all (\<lambda>p. fst p \<noteq> []) (pp_params (st1\<lparr>consumed := consumed st1 + 1\<rparr>))"
      "\<not> parsingKey (st1\<lparr>consumed := consumed st1 + 1\<rparr>) \<longrightarrow> pp_key (st1\<lparr>consumed := consumed st1 + 1\<rparr>) \<noteq> []"
      by simp_all
    from Cons.prems(1) Continue
    have "parseLoop sep e q s (st1\<lparr>consumed := consumed st1 + 1\<rparr>) cs = Inr st'" by simp
    from Cons.IH [OF this inv] show ?thesis .
  next
    case Break
    with Cons.prems show ?thesis by simp
  next
    case (Fail x)
    with Cons.prems show ?thesis by simp
  qed
qed

lemma parseParams_no_empty_key:
  assumes "\<not> s" and "parseParams source start sep e q s = Inr (ps, n)"
  shows "[] \<notin> fst ` set ps"
proof (cases "source = []")
  case True
  with assms show ?thesis by (simp add: parseParams_def NewParams_def)
next
  case False
  with assms(2) obtain st where
    loop: "parseLoop sep e q s (parseStart start) (drop (nat (consumed (parseStart start))) source) = Inr st"
    and fin: "\<not> inQuotes st" "\<not> parsingKey st" "ps = params_Add (pp_params st) (pp_key st) (Some (pp_buffer st))"
    using assms(1) by (auto simp: parseParams_def split: if_splits sum.splits)
  have "list_all (\<lambda>p. fst p \<noteq> []) (pp_params st) \<and> (\<not> parsingKey st \<longrightarrow> pp_key st \<noteq> [])"
    by (rule parseLoop_no_empty_key [OF assms(1) loop]) (simp_all add: parseStart_def NewParams_def)
  with fin have "list_all (\<lambda>p. fst p \<noteq> []) ps"
    by (simp add: list_all_params_Add)
  then show ?thesis by (force simp: list_all_iff)
qed

lemma parseParams_step_error:
  assumes "source \<noteq> []" and "start = CHR 0x00 \<or> source ! 0 = start"
    and "drop (nat (consumed (parseStart start))) source = pre @ c # rest"
    and "scan sep e q s (parseStart start) pre (c # rest) = Some st"
    and "parseStep sep e q s st c rest = Fail err"
  shows "parseParams source start sep e q s = Inl err"
  using assms scan_parseLoop [OF assms(4)]
  by (auto simp: parseParams_def)

lemma parseParams_step_break:
  assumes "source \<noteq> []" and "start = CHR 0x00 \<or> source ! 0 = start"
    and "drop (nat (consumed (parseStart start))) source = pre @ c # rest"
    and "scan sep e q s (parseStart start) pre (c # rest) = Some st"
    and "parseStep sep e q s st c rest = Break"
    and "\<not> inQuotes st" and "parsingKey st" and "\<not> s"
  shows "parseParams source start sep e q s = Inl ParamsSingletonDisallowed"
  using assms scan_parseLoop [OF assms(4)]
  by (auto simp: parseParams_def)

lemma parseParams_at_end:
  assumes "source \<noteq> []" and "start = CHR 0x00 \<or> source ! 0 = start"
    and "scan sep e q s (parseStart start) (drop (nat (consumed (parseStart start))) source) [] = Some st"
  shows "parseParams source start sep e q s =
          (if inQuotes st then Inl ParamsUnclosedQuotes
             else if parsingKey st \<and> s
             then Inr (params_Add (pp_params st) (pp_buffer st) None, consumed st)
             else if parsingKey st then Inl ParamsSingletonDisallowed
             else Inr (params_Add (pp_params st) (pp_key st) (Some (pp_buffer st)), consumed st))"
  using assms scan_parseLoop [OF assms(3)]
  by (auto simp: parseParams_def)


text \<open>
  What the parser rejects. Let the loop of \<^verbatim>\<open>parseParams\<close> have gone through a prefix
  \<open>pre\<close> of the text after the start delimiter and stand before the byte \<open>c\<close>, with
  locals \<open>st\<close>. If \<open>c\<close> is neither the separator nor the end delimiter (which the
  \<^verbatim>\<open>switch\<close> tries first), \<^verbatim>\<open>parseParams\<close> returns an error when
  \<^item> \<open>c\<close> is \<open>=\<close> and the buffer is empty (a key of length 0);
  \<^item> quoting is enabled and \<open>c\<close> is a quote in key position;
  \<^item> quoting is enabled and \<open>c\<close> is an opening quote after the value has begun;
  \<^item> quoting is enabled and \<open>c\<close> is a closing quote followed by a byte other than the
    separator.
  It returns an error when singletons are disallowed and \<open>c\<close> is the separator or the end
  delimiter, met outside quotes while a key is being read (a valueless key, empty or
  not). When the loop reaches the end of the text with locals \<open>st\<close>, \<^verbatim>\<open>parseParams\<close>
  returns an error if a quotation is open, and if singletons are disallowed and a key is
  being read. When singletons are disallowed, a returned map never contains an empty
  key.
\<close>

lemma parseParams_rejections:
  "(source \<noteq> [] \<and> (start = CHR 0x00 \<or> source ! 0 = start)
      \<and> drop (nat (consumed (parseStart start))) source = pre @ c # rest
      \<and> scan sep end quoteValues permitSingletons (parseStart start) pre (c # rest) = Some st \<longrightarrow>
        (c = CHR ''='' \<and> c \<noteq> end \<and> c \<noteq> sep \<and> pp_buffer st = [] \<longrightarrow>
           parseParams source start sep end quoteValues permitSingletons = Inl ParamsKeyLengthZero)
      \<and> (c = CHR 0x22 \<and> c \<noteq> end \<and> c \<noteq> sep \<and> quoteValues \<and> parsingKey st \<longrightarrow>
           parseParams source start sep end quoteValues permitSingletons = Inl ParamsQuoteInKey)
      \<and> (c = CHR 0x22 \<and> c \<noteq> end \<and> c \<noteq> sep \<and> quoteValues \<and> \<not> parsingKey st
            \<and> \<not> inQuotes st \<and> pp_buffer st \<noteq> [] \<longrightarrow>
           parseParams source start sep end quoteValues permitSingletons = Inl ParamsQuoteMidValue)
      \<and> (c = CHR 0x22 \<and> c \<noteq> end \<and> c \<noteq> sep \<and> quoteValues \<and> \<not> parsingKey st
            \<and> inQuotes st \<and> rest \<noteq> [] \<and> hd rest \<noteq> sep \<longrightarrow>
           parseParams source start sep end quoteValues permitSingletons = Inl ParamsCharAfterQuote)
      \<and> ((c = sep \<or> c = end) \<and> \<not> inQuotes st \<and> parsingKey st \<and> \<not> permitSingletons \<longrightarrow>
           parseParams source start sep end quoteValues permitSingletons = Inl ParamsSingletonDisallowed))
   \<and> (source \<noteq> [] \<and> (start = CHR 0x00 \<or> source ! 0 = start)
      \<and> scan sep end quoteValues permitSingletons (parseStart start)
           (drop (nat (consumed (parseStart start))) source) [] = Some st \<longrightarrow>
        (inQuotes st \<longrightarrow>
           parseParams source start sep end quoteValues permitSingletons = Inl ParamsUnclosedQuotes)
      \<and> (\<not> inQuotes st \<and> parsingKey st \<and> \<not> permitSingletons \<longrightarrow>
           parseParams source start sep end quoteValues permitSingletons = Inl ParamsSingletonDisallowed))
   \<and> (\<not> permitSingletons
        \<and> parseParams source start sep end quoteValues permitSingletons = Inr (ps, n) \<longrightarrow>
        [] \<notin> fst ` set ps)"
proof (intro conjI impI)
  assume a: "source \<noteq> [] \<and> (start = CHR 0x00 \<or> source ! 0 = start)
      \<and> drop (nat (consumed (parseStart start))) source = pre @ c # rest
      \<and> scan sep end quoteValues permitSingletons (parseStart start) pre (c # rest) = Some st"
  note err = parseParams_step_error [of source start pre c rest sep "end" quoteValues permitSingletons st]
  note brk = parseParams_step_break [of source start pre c rest sep "end" quoteValues permitSingletons st]
  {
    assume "c = CHR ''='' \<and> c \<noteq> end \<and> c \<noteq> sep \<and> pp_buffer st = []"
    then show "parseParams source start sep end quoteValues permitSingletons = Inl ParamsKeyLengthZero"
      using a by (intro err) (auto simp: parseStep_def)
  }
  {
    assume "c = CHR 0x22 \<and> c \<noteq> end \<and> c \<noteq> sep \<and> quoteValues \<and> parsingKey st"
    then show "parseParams source start sep end quoteValues permitSingletons = Inl ParamsQuoteInKey"
      using a by (intro err) (auto simp: parseStep_def)
  }
  {
    assume "c = CHR 0x22 \<and> c \<noteq> end \<and> c \<noteq> sep \<and> quoteValues \<and> \<not> parsingKey st
            \<and> \<not> inQuotes st \<and> pp_buffer st \<noteq> []"
    then show "parseParams source start sep end quoteValues permitSingletons = Inl ParamsQuoteMidValue"
      using a by (intro err) (auto simp: parseStep_def)
  }
  {
    assume "c = CHR 0x22 \<and> c \<noteq> end \<and> c \<noteq> sep \<and> quoteValues \<and> \<not> parsingKey st
            \<and> inQuotes st \<and> rest \<noteq> [] \<and> hd rest \<noteq> sep"
    then show "parseParams source start sep end quoteValues permitSingletons = Inl ParamsCharAfterQuote"
      using a by (intro err) (auto simp: parseStep_def)
  }
  {
    assume b: "(c = sep \<or> c = end) \<and> \<not> inQuotes st \<and> parsingKey st \<and> \<not> permitSingletons"
    show "parseParams source start sep end quoteValues permitSingletons = Inl ParamsSingletonDisallowed"
    proof (cases "c = end")
      case True
      then show ?thesis using a b by (intro brk) (auto simp: parseStep_def)
    next
      case False
      then show ?thesis using a b by (intro err) (auto simp: parseStep_def)
    qed
  }
next
  assume a: "source \<noteq> [] \<and> (start = CHR 0x00 \<or> source ! 0 = start)
      \<and> scan sep end quoteValues permitSingletons (parseStart start)
           (drop (nat (consumed (parseStart start))) source) [] = Some st"
  note fin = parseParams_at_end [of source start sep "end" quoteValues permitSingletons st]
  {
    assume "inQuotes st"
    then show "parseParams source start sep end quoteValues permitSingletons = Inl ParamsUnclosedQuotes"
      using a fin by simp
  }
  {
    assume "\<not> inQuotes st \<and> parsingKey st \<and> \<not> permitSingletons"
    then show "parseParams source start sep end quoteValues permitSingletons = Inl ParamsSingletonDisallowed"
      using a fin by simp
  }
next
  assume "\<not> permitSingletons
        \<and> parseParams source start sep end quoteValues permitSingletons = Inr (ps, n)"
  then show "[] \<notin> fst ` set ps"
    using parseParams_no_empty_key by blast
qed


text \<open>
  C8. The claim: for every input and configuration the parser returns an error whenever
  a key is empty, including an empty key terminated by the separator or by the end of
  the input, and it never returns a map containing an empty key. The code tests the
  length of the key only when it reads \<open>=\<close>; at the separator and at the end of the
  input it adds the buffer as a key without a value, whatever its length. With the
  configuration that \<^verbatim>\<open>ParseSipUri\<close> passes for the parameters of a URI (start and
  separator \<open>;\<close>, end \<open>?\<close>, quoting enabled, singletons permitted) the texts \<^verbatim>\<open>;;a=b\<close>
  and \<^verbatim>\<open>;\<close> are accepted, and the returned map contains the empty key. So the URI
  \<^verbatim>\<open>sip:bob@example.com;;a=b\<close> and the header line
  \<^verbatim>\<open>Contact: <sip:bob@example.com>;;a=b\<close> are parsed without error, into parameters that
  contain the empty key.
\<close>

theorem C8_empty_key_is_accepted:
  "parseParams '';;a=b'' (CHR '';'') (CHR '';'') (CHR ''?'') True True
     = Inr ([([], None), (''a'', Some ''b'')], 5)
   \<and> parseParams '';'' (CHR '';'') (CHR '';'') (CHR ''?'') True True = Inr ([([], None)], 1)
   \<and> ParseSipUri ''sip:bob@example.com;;a=b''
     = Ok \<lparr> IsEncrypted = False, User = Some ''bob'', Password = None,
            Host = ''example.com'', Port = None,
            UriParams = [([], None), (''a'', Some ''b'')], Headers = [] \<rparr>
   \<and> parseAddressHeader ''contact'' ''<sip:bob@example.com>;;a=b''
     = Ok [ContactHeader None example_uri [([], None), (''a'', Some ''b'')]]"
  by (simp add: addr_eval)

subsection \<open>Client transaction: what reaches the consumer\<close>

lemmas tx_eval =
  NewClientTx_def makeClientTxKey_def first_ViaHop_def step_def step_blocked_def Receive_def
  Spin.simps IsProvisional_def IsSuccess_def spinOnce_def initFSM_def IsInvite_def INVITE_def
  ACK_def act_passup_def act_passup_delete_def act_invite_final_def act_non_invite_final_def
  act_invite_resend_def act_non_invite_resend_def act_ack_def act_trans_err_def
  act_timeout_def act_delete_def ack_def ack_request_def resend_def passUp_def
  transportError_def timeoutError_def delete_def Origin_def Destination_def
  CopyHeaders_def GetHeaders_def AppendHeader_def NewRequest_def
  strings_ToLower_def ascii_lower_def Timer_A_def Timer_B_def Timer_D_def T1_def T2_def
  final_responses_def Let_def

lemma spinOnce_timer:
  assumes "i \<in> {client_input_timer_a, client_input_timer_b, client_input_timer_d,
                 client_input_delete}"
    and "signals_inv tx" and "spinOnce tx i = Some (tx', e)"
  shows "signals_inv tx' \<and> (\<forall>j. e = Returns (Some j) \<longrightarrow> j = client_input_delete)
         \<and> origin tx' = origin tx"
  using assms
  apply (cases "IsInvite (origin tx)"; cases "fsm_state tx")
  apply (auto simp: spinOnce_def initFSM_def signals_inv_def final_responses_def
                 act_invite_resend_def act_non_invite_resend_def
                 act_timeout_def act_delete_def
                 resend_def timeoutError_def delete_def Origin_def Destination_def Let_def
           split: option.splits if_splits)
  done

lemma spinOnce_response:
  assumes "lastResp tx = Some res"
    and "i = (if IsProvisional res then client_input_1xx
              else if IsSuccess res then client_input_2xx else client_input_300_plus)"
    and "signals_inv tx"
  shows "\<exists>tx' e. spinOnce tx i = Some (tx', e) \<and> signals_inv tx'
           \<and> (\<forall>j. e = Returns (Some j) \<longrightarrow> j = client_input_delete)
           \<and> origin tx' = origin tx"
  using assms
  apply (cases "IsInvite (origin tx)"; cases "fsm_state tx")
  apply (auto simp: spinOnce_def initFSM_def signals_inv_def final_responses_def
                 act_passup_def act_passup_delete_def act_invite_final_def
                 act_non_invite_final_def act_ack_def ack_def passUp_def Origin_def Let_def
           split: option.splits if_splits)
  done

lemma spinOnce_timer_total:
  assumes "i \<in> {client_input_timer_b, client_input_timer_d, client_input_delete}
           \<or> (i = client_input_timer_a \<and> timer_a tx \<noteq> None)"
  shows "spinOnce tx i \<noteq> None"
  using assms
  apply (cases "IsInvite (origin tx)"; cases "fsm_state tx")
  apply (auto simp: spinOnce_def initFSM_def
                 act_invite_resend_def act_non_invite_resend_def resend_def
                 act_timeout_def act_delete_def Let_def
           split: option.splits if_splits)
  done

lemma Spin_delete:
  assumes "signals_inv tx"
  shows "\<exists>tx'. Spin tx client_input_delete = Returned tx' \<and> signals_inv tx'
           \<and> origin tx' = origin tx"
  using assms
  apply (cases "IsInvite (origin tx)"; cases "fsm_state tx")
  apply (auto simp: Spin.simps spinOnce_def initFSM_def signals_inv_def final_responses_def
                 act_delete_def delete_def)
  done

lemma Spin_first:
  assumes "spinOnce tx i = Some (tx1, e)" and "signals_inv tx1"
    and "\<forall>j. e = Returns (Some j) \<longrightarrow> j = client_input_delete"
  shows "\<exists>tx'. (Spin tx i = Returned tx' \<or> Spin tx i = Blocked tx') \<and> signals_inv tx'
           \<and> origin tx' = origin tx1"
proof (cases e)
  case (Calls_Spin j)
  with assms show ?thesis by (simp add: Spin.simps)
next
  case (Returns r)
  show ?thesis
  proof (cases r)
    case None
    with Returns assms show ?thesis by (simp add: Spin.simps)
  next
    case (Some j)
    with Returns assms(3) have "j = client_input_delete" by simp
    with Returns Some assms(1) have "Spin tx i = Spin tx1 client_input_delete"
      by (simp add: Spin.simps [of tx i])
    with Spin_delete [OF assms(2)] show ?thesis by auto
  qed
qed

lemma step_inv:
  assumes "signals_inv tx"
  shows "\<exists>tx'. (step tx ev = Returned tx' \<or> step tx ev = Blocked tx') \<and> signals_inv tx'
           \<and> origin tx' = origin tx"
proof (cases ev)
  case (Receives msg)
  show ?thesis
  proof (cases msg)
    case (RequestMsg req)
    with Receives assms show ?thesis by (simp add: step_def Receive_def)
  next
    case (ResponseMsg res)
    let ?tx1 = "tx\<lparr> lastResp := Some res \<rparr>"
    let ?i = "if IsProvisional res then client_input_1xx
              else if IsSuccess res then client_input_2xx else client_input_300_plus"
    from assms have inv1: "signals_inv ?tx1"
      by (cases "fsm_state tx") (simp_all add: signals_inv_def final_responses_def)
    have "lastResp ?tx1 = Some res" by simp
    from spinOnce_response [OF this refl inv1]
    obtain tx2 e where once: "spinOnce ?tx1 ?i = Some (tx2, e)" "signals_inv tx2"
      "\<forall>j. e = Returns (Some j) \<longrightarrow> j = client_input_delete"
      and o2: "origin tx2 = origin ?tx1" by blast
    from Spin_first [OF once] o2
    obtain tx' where "Spin ?tx1 ?i = Returned tx' \<or> Spin ?tx1 ?i = Blocked tx'"
      "signals_inv tx'" "origin tx' = origin tx"
      by auto
    with Receives ResponseMsg show ?thesis
      by (auto simp: step_def Receive_def Let_def)
  qed
next
  case Timer_a_fires
  show ?thesis
  proof (cases "timer_a tx = None")
    case True
    with Timer_a_fires assms show ?thesis by (simp add: step_def)
  next
    case False
    then have "spinOnce tx client_input_timer_a \<noteq> None" by (intro spinOnce_timer_total) simp
    then obtain tx1 e where once: "spinOnce tx client_input_timer_a = Some (tx1, e)" by auto
    from spinOnce_timer [OF _ assms once]
    have "signals_inv tx1" "\<forall>j. e = Returns (Some j) \<longrightarrow> j = client_input_delete"
      and o1: "origin tx1 = origin tx" by auto
    from Spin_first [OF once this(1,2)] o1 Timer_a_fires False show ?thesis
      by (auto simp: step_def)
  qed
next
  case Timer_b_fires
  show ?thesis
  proof (cases "timer_b tx = None")
    case True
    with Timer_b_fires assms show ?thesis by (simp add: step_def)
  next
    case False
    have "spinOnce tx client_input_timer_b \<noteq> None" by (intro spinOnce_timer_total) simp
    then obtain tx1 e where once: "spinOnce tx client_input_timer_b = Some (tx1, e)" by auto
    from spinOnce_timer [OF _ assms once]
    have "signals_inv tx1" "\<forall>j. e = Returns (Some j) \<longrightarrow> j = client_input_delete"
      and o1: "origin tx1 = origin tx" by auto
    from Spin_first [OF once this(1,2)] o1 Timer_b_fires False show ?thesis
      by (auto simp: step_def)
  qed
next
  case Timer_d_fires
  show ?thesis
  proof (cases "timer_d tx = None")
    case True
    with Timer_d_fires assms show ?thesis by (simp add: step_def)
  next
    case False
    have "spinOnce tx client_input_timer_d \<noteq> None" by (intro spinOnce_timer_total) simp
    then obtain tx1 e where once: "spinOnce tx client_input_timer_d = Some (tx1, e)" by auto
    from spinOnce_timer [OF _ assms once]
    have "signals_inv tx1" "\<forall>j. e = Returns (Some j) \<longrightarrow> j = client_input_delete"
      and o1: "origin tx1 = origin tx" by auto
    from Spin_first [OF once this(1,2)] o1 Timer_d_fires False show ?thesis
      by (auto simp: step_def)
  qed
qed

lemma step_blocked_inv: "signals_inv tx \<Longrightarrow> signals_inv (step_blocked tx ev)"
  by (cases "fsm_state tx")
     (auto simp: step_blocked_def signals_inv_def final_responses_def
           split: event.splits Message.splits)

lemma run_blocked_inv: "signals_inv tx \<Longrightarrow> signals_inv (run_blocked tx evs)"
  by (induction evs arbitrary: tx) (simp_all add: step_blocked_inv)

lemma run_inv:
  "signals_inv tx \<Longrightarrow>
     \<exists>tx'. (run tx evs = Returned tx' \<or> run tx evs = Blocked tx') \<and> signals_inv tx'"
proof (induction evs arbitrary: tx)
  case Nil
  then show ?case by simp
next
  case (Cons ev evs)
  from step_inv [OF Cons.prems]
  obtain tx1 where s: "step tx ev = Returned tx1 \<or> step tx ev = Blocked tx1"
    and inv1: "signals_inv tx1" by blast
  from s show ?case
  proof
    assume "step tx ev = Returned tx1"
    with Cons.IH [OF inv1] show ?thesis by simp
  next
    assume "step tx ev = Blocked tx1"
    with run_blocked_inv [OF inv1, of evs] show ?thesis by simp
  qed
qed

lemma NewClientTx_inv: "NewClientTx orig d isReliable sendErrs = Some tx \<Longrightarrow> signals_inv tx"
  by (auto simp: NewClientTx_def signals_inv_def final_responses_def Let_def split: option.splits)

lemma signals_inv_bounds:
  "signals_inv tx \<Longrightarrow> length (final_responses tx) + length (errs tx) \<le> 1"
  by (cases "fsm_state tx") (auto simp: signals_inv_def)

lemma Receive_terminated:
  assumes "fsm_state tx = client_state_terminated"
  shows "Receive tx (ResponseMsg res) = (Returned (tx\<lparr> lastResp := Some res \<rparr>), None)"
proof -
  let ?tx1 = "tx\<lparr> lastResp := Some res \<rparr>"
  have st: "?tx1\<lparr> fsm_state := client_state_terminated \<rparr> = ?tx1"
    using assms by simp
  have "spinOnce ?tx1 i = Some (?tx1, Returns None)"
    if "i \<in> {client_input_1xx, client_input_2xx, client_input_300_plus}" for i
    using that assms st by (auto simp: spinOnce_def initFSM_def)
  then show ?thesis
    by (simp add: Receive_def Let_def Spin.simps)
qed

text \<open>
  C2. Take any transaction that \<^verbatim>\<open>NewClientTx\<close> has created and any sequence of events
  (messages handed to \<^verbatim>\<open>Receive\<close>, firings of its timers), with any behaviour of the
  transport layer. The run never panics, and whether every call has returned or one of
  them is blocked, at most one terminal signal has reached the consumer: the final
  responses passed up and the errors surfaced (timeout, transport error) are at most
  one in all. A response handed to \<^verbatim>\<open>Receive\<close> in the terminated state is recorded as
  the last response and causes nothing else: no action, no output, no change of state.
\<close>

theorem C2_at_most_one_terminal_signal:
  "(NewClientTx orig d isReliable sendErrs = Some tx0 \<longrightarrow>
      (\<exists>tx. (run tx0 evs = Returned tx \<or> run tx0 evs = Blocked tx)
          \<and> length (final_responses tx) + length (errs tx) \<le> 1))
   \<and> (fsm_state tx = client_state_terminated \<longrightarrow>
        Receive tx (ResponseMsg res) = (Returned (tx\<lparr> lastResp := Some res \<rparr>), None))"
proof (intro conjI impI)
  assume new: "NewClientTx orig d isReliable sendErrs = Some tx0"
  from run_inv [OF NewClientTx_inv [OF new], of evs]
  obtain tx' where "run tx0 evs = Returned tx' \<or> run tx0 evs = Blocked tx'" "signals_inv tx'"
    by auto
  with signals_inv_bounds [of tx']
  show "\<exists>tx. (run tx0 evs = Returned tx \<or> run tx0 evs = Blocked tx)
          \<and> length (final_responses tx) + length (errs tx) \<le> 1"
    by auto
next
  assume "fsm_state tx = client_state_terminated"
  then show "Receive tx (ResponseMsg res) = (Returned (tx\<lparr> lastResp := Some res \<rparr>), None)"
    by (rule Receive_terminated)
qed

theorem C2_at_most_one_terminal_signal_witness:
  "NewClientTx example_invite ''pc2.example.com:5060'' (\<lambda>t. False) (\<lambda>k. None)
     = Some (example_tx example_invite (\<lambda>k. None))
   \<and> (\<exists>tx. (run (example_tx example_invite (\<lambda>k. None))
               [Receives (ResponseMsg example_404), Timer_d_fires,
                Receives (ResponseMsg example_404)]
             = Returned tx
            \<or> run (example_tx example_invite (\<lambda>k. None))
               [Receives (ResponseMsg example_404), Timer_d_fires,
                Receives (ResponseMsg example_404)]
             = Blocked tx)
          \<and> length (final_responses tx) + length (errs tx) \<le> 1)
   \<and> Receive ((example_tx example_invite (\<lambda>k. None))\<lparr> fsm_state := client_state_terminated \<rparr>)
         (ResponseMsg example_404)
       = (Returned ((example_tx example_invite (\<lambda>k. None))
                 \<lparr> fsm_state := client_state_terminated, lastResp := Some example_404 \<rparr>), None)
   \<and> NewClientTx example_invite ''pc2.example.com:5060'' (\<lambda>t. False)
         (\<lambda>n. if n = 1 then Some SendFailed else None)
     = Some (example_tx example_invite (\<lambda>n. if n = 1 then Some SendFailed else None))
   \<and> (\<exists>tx. (run (example_tx example_invite (\<lambda>n. if n = 1 then Some SendFailed else None))
               [Receives (ResponseMsg example_404), Receives (ResponseMsg example_404)]
             = Returned tx
            \<or> run (example_tx example_invite (\<lambda>n. if n = 1 then Some SendFailed else None))
               [Receives (ResponseMsg example_404), Receives (ResponseMsg example_404)]
             = Blocked tx)
          \<and> length (final_responses tx) + length (errs tx) \<le> 1)"
  using C2_at_most_one_terminal_signal
          [of example_invite "''pc2.example.com:5060''" "\<lambda>t. False" "\<lambda>k. None"
              "example_tx example_invite (\<lambda>k. None)"
              "[Receives (ResponseMsg example_404), Timer_d_fires, Receives (ResponseMsg example_404)]"
              "(example_tx example_invite (\<lambda>k. None))\<lparr> fsm_state := client_state_terminated \<rparr>"
              example_404]
        C2_at_most_one_terminal_signal
          [of example_invite "''pc2.example.com:5060''" "\<lambda>t. False"
              "\<lambda>n. if n = 1 then Some SendFailed else None"
              "example_tx example_invite (\<lambda>n. if n = 1 then Some SendFailed else None)"
              "[Receives (ResponseMsg example_404), Receives (ResponseMsg example_404)]"
              "(example_tx example_invite (\<lambda>k. None))\<lparr> fsm_state := client_state_terminated \<rparr>"
              example_404]
  by (auto simp: NewClientTx_def makeClientTxKey_def first_ViaHop_def Timer_A_def Timer_B_def
                 Timer_D_def T1_def)

text \<open>
  Two runs of the INVITE transaction of the examples. When every \<^verbatim>\<open>Send\<close> succeeds, a
  404, the firing of timer D and the same 404 again leave the 404 passed up once, no
  error, and the transaction deleted in the terminated state. When the second \<^verbatim>\<open>Send\<close>
  fails, the 404 received twice leaves the second call of \<^verbatim>\<open>Receive\<close> blocked in
  \<^verbatim>\<open>ack\<close>, with the 404 passed up once, both ACKs handed to the transport layer and no
  error surfaced.
\<close>

lemma run_examples:
  "(case run (example_tx example_invite (\<lambda>k. None))
           [Receives (ResponseMsg example_404), Timer_d_fires,
            Receives (ResponseMsg example_404)] of
      Returned tx \<Rightarrow> Some (msgs tx, errs tx, map snd (sent tx), fsm_state tx, deleted tx)
    | _ \<Rightarrow> None)
   = Some ([example_404], [], [example_ack], client_state_terminated, True)
   \<and> (case run (example_tx example_invite (\<lambda>n. if n = 1 then Some SendFailed else None))
           [Receives (ResponseMsg example_404), Receives (ResponseMsg example_404)] of
      Blocked tx \<Rightarrow> Some (msgs tx, errs tx, map snd (sent tx), lastErr tx)
    | _ \<Rightarrow> None)
   = Some ([example_404], [], [example_ack, example_ack], None)"
  by (simp add: tx_eval)

subsection \<open>Client transaction: timer A\<close>

lemma int64_id: "- (2 ^ 63) \<le> x \<Longrightarrow> x < 2 ^ 63 \<Longrightarrow> int64 x = x"
  by (simp add: int64_def)

lemma int64_mult: "int64 (int64 x * k) = int64 (x * k)"
proof -
  have "((x + 2 ^ 63) mod 2 ^ 64 - 2 ^ 63) mod (2 ^ 64 :: int) = x mod 2 ^ 64"
    by (simp add: mod_diff_left_eq)
  then have "(((x + 2 ^ 63) mod 2 ^ 64 - 2 ^ 63) * k) mod (2 ^ 64 :: int) = (x * k) mod 2 ^ 64"
    by (metis mod_mult_left_eq)
  then have "(((x + 2 ^ 63) mod 2 ^ 64 - 2 ^ 63) * k + 2 ^ 63) mod (2 ^ 64 :: int)
             = (x * k + 2 ^ 63) mod 2 ^ 64"
    by (metis mod_add_left_eq)
  then show ?thesis by (simp add: int64_def)
qed

lemma min_double_cap:
  fixes t :: int
  assumes "0 \<le> t" and "0 \<le> c"
  shows "min (min (t * 2) c * 2 ^ n) c = min (t * 2 ^ Suc n) c"
proof (cases "t * 2 \<le> c")
  case True
  then show ?thesis by (simp add: min_def mult.assoc)
next
  case False
  have p: "(1::int) \<le> 2 ^ n" by simp
  from False have m: "min (t * 2) c = c" by simp
  have "c \<le> c * 2 ^ n" using assms(2) p by (simp add: mult_le_cancel_left1)
  moreover have "t * 2 \<le> t * 2 * 2 ^ n" using assms(1) p by (simp add: mult_le_cancel_left1)
  with False have "c \<le> t * 2 ^ Suc n" by (simp add: mult.assoc)
  ultimately show ?thesis using m by simp
qed

lemma spinOnce_timer_a_non_invite:
  assumes "timer_a tx \<noteq> None" and "\<not> IsInvite (origin tx)"
    and "fsm_state tx \<in> {client_state_calling, client_state_proceeding}"
  shows "\<exists>tx'. spinOnce tx client_input_timer_a =
                 Some (tx', if send_errs tx (length (sent tx)) \<noteq> None
                            then Calls_Spin client_input_transport_err else Returns None)
           \<and> timer_a_time tx' = min (int64 (timer_a_time tx * 2)) T2
           \<and> timer_a tx' = Some (timer_a_time tx')
           \<and> sent tx' = sent tx @ [(dest tx, origin tx)]
           \<and> fsm_state tx' = fsm_state tx \<and> origin tx' = origin tx
           \<and> send_errs tx' = send_errs tx"
  using assms
  by (auto simp: spinOnce_def initFSM_def act_non_invite_resend_def resend_def Let_def
                 Origin_def Destination_def min_def)

lemma spinOnce_timer_a_invite:
  assumes "timer_a tx \<noteq> None" and "IsInvite (origin tx)"
    and "fsm_state tx = client_state_calling"
  shows "\<exists>tx'. spinOnce tx client_input_timer_a =
                 Some (tx', if send_errs tx (length (sent tx)) \<noteq> None
                            then Calls_Spin client_input_transport_err else Returns None)
           \<and> timer_a_time tx' = int64 (timer_a_time tx * 2)
           \<and> timer_a tx' = Some (timer_a_time tx')
           \<and> sent tx' = sent tx @ [(dest tx, origin tx)]
           \<and> fsm_state tx' = fsm_state tx \<and> origin tx' = origin tx
           \<and> send_errs tx' = send_errs tx"
  using assms
  by (auto simp: spinOnce_def initFSM_def act_invite_resend_def resend_def Let_def
                 Origin_def Destination_def)

lemma run_timer_a_non_invite:
  assumes "\<not> IsInvite (origin tx)"
    and "fsm_state tx \<in> {client_state_calling, client_state_proceeding}"
    and "timer_a tx \<noteq> None" and "0 \<le> timer_a_time tx" and "timer_a_time tx \<le> T2"
    and "\<forall>k. send_errs tx k = None"
  shows "\<exists>tx'. run tx (replicate n Timer_a_fires) = Returned tx'
           \<and> timer_a_time tx' = min (timer_a_time tx * 2 ^ n) T2
           \<and> length (sent tx') = length (sent tx) + n
           \<and> fsm_state tx' = fsm_state tx"
  using assms
proof (induction n arbitrary: tx)
  case 0
  then show ?case by simp
next
  case (Suc n)
  from spinOnce_timer_a_non_invite [OF Suc.prems(3,1,2)] Suc.prems(6)
  obtain tx1 where once: "spinOnce tx client_input_timer_a = Some (tx1, Returns None)"
    and t1: "timer_a_time tx1 = min (int64 (timer_a_time tx * 2)) T2"
    and rest: "timer_a tx1 = Some (timer_a_time tx1)" "sent tx1 = sent tx @ [(dest tx, origin tx)]"
      "fsm_state tx1 = fsm_state tx" "origin tx1 = origin tx" "send_errs tx1 = send_errs tx"
    by auto
  have "int64 (timer_a_time tx * 2) = timer_a_time tx * 2"
    using Suc.prems(4,5) by (intro int64_id) (simp_all add: T2_def)
  with t1 have t1': "timer_a_time tx1 = min (timer_a_time tx * 2) T2" by simp
  from once Suc.prems(3) have step: "step tx Timer_a_fires = Returned tx1"
    by (auto simp: step_def Spin.simps)
  have "\<exists>tx'. run tx1 (replicate n Timer_a_fires) = Returned tx'
           \<and> timer_a_time tx' = min (timer_a_time tx1 * 2 ^ n) T2
           \<and> length (sent tx') = length (sent tx1) + n
           \<and> fsm_state tx' = fsm_state tx1"
    using rest Suc.prems t1' by (intro Suc.IH) (simp_all add: T2_def)
  then obtain tx' where "run tx1 (replicate n Timer_a_fires) = Returned tx'"
    "timer_a_time tx' = min (timer_a_time tx1 * 2 ^ n) T2"
    "length (sent tx') = length (sent tx1) + n" "fsm_state tx' = fsm_state tx1" by blast
  moreover have "min (min (timer_a_time tx * 2) T2 * 2 ^ n) T2 = min (timer_a_time tx * 2 ^ Suc n) T2"
    using Suc.prems(4) by (intro min_double_cap) (simp_all add: T2_def)
  ultimately show ?case using step t1' rest by simp
qed

lemma run_timer_a_invite:
  assumes "IsInvite (origin tx)" and "fsm_state tx = client_state_calling"
    and "timer_a tx \<noteq> None" and "\<forall>k. send_errs tx k = None"
    and "int64 (timer_a_time tx) = timer_a_time tx"
  shows "\<exists>tx'. run tx (replicate n Timer_a_fires) = Returned tx'
           \<and> timer_a_time tx' = int64 (timer_a_time tx * 2 ^ n)
           \<and> length (sent tx') = length (sent tx) + n
           \<and> fsm_state tx' = fsm_state tx"
  using assms
proof (induction n arbitrary: tx)
  case 0
  then show ?case by simp
next
  case (Suc n)
  from spinOnce_timer_a_invite [OF Suc.prems(3,1,2)] Suc.prems(4)
  obtain tx1 where once: "spinOnce tx client_input_timer_a = Some (tx1, Returns None)"
    and t1: "timer_a_time tx1 = int64 (timer_a_time tx * 2)"
    and rest: "timer_a tx1 = Some (timer_a_time tx1)" "sent tx1 = sent tx @ [(dest tx, origin tx)]"
      "fsm_state tx1 = fsm_state tx" "origin tx1 = origin tx" "send_errs tx1 = send_errs tx"
    by auto
  from once Suc.prems(3) have step: "step tx Timer_a_fires = Returned tx1"
    by (auto simp: step_def Spin.simps)
  have idem: "int64 (timer_a_time tx1) = timer_a_time tx1"
    using t1 int64_mult [of "timer_a_time tx * 2" 1] by simp
  have "\<exists>tx'. run tx1 (replicate n Timer_a_fires) = Returned tx'
           \<and> timer_a_time tx' = int64 (timer_a_time tx1 * 2 ^ n)
           \<and> length (sent tx') = length (sent tx1) + n
           \<and> fsm_state tx' = fsm_state tx1"
    using rest Suc.prems idem by (intro Suc.IH) simp_all
  then obtain tx' where "run tx1 (replicate n Timer_a_fires) = Returned tx'"
    "timer_a_time tx' = int64 (timer_a_time tx1 * 2 ^ n)"
    "length (sent tx') = length (sent tx1) + n" "fsm_state tx' = fsm_state tx1" by blast
  moreover have "int64 (int64 (timer_a_time tx * 2) * 2 ^ n) = int64 (timer_a_time tx * 2 ^ Suc n)"
    by (simp add: int64_mult mult.assoc)
  ultimately show ?case using step t1 rest by simp
qed

lemma T1_doublings_fit: "n \<le> 34 \<Longrightarrow> int64 (T1 * 2 ^ n) = T1 * 2 ^ n"
proof -
  assume "n \<le> 34"
  then have "(2::int) ^ n \<le> 2 ^ 34" by (intro power_increasing) simp_all
  then have "T1 * 2 ^ n \<le> T1 * 2 ^ 34" by (simp add: T1_def)
  moreover have "T1 * 2 ^ 34 < 2 ^ 63" by (simp add: T1_def)
  moreover have "0 \<le> T1 * 2 ^ n" by (simp add: T1_def)
  ultimately show ?thesis by (intro int64_id) simp_all
qed

text \<open>
  C5. On a firing of timer A, a transaction that is not an INVITE, in calling or
  proceeding, doubles the current period of timer A (in \<^verbatim>\<open>int64\<close> nanoseconds), clamps
  it to at most \<open>T2\<close>, restarts the timer with it and hands the original request to the
  transport layer again; an INVITE transaction in calling does the same without the
  clamp. So, for a transaction created over an unreliable transport whose sends
  succeed, the period after \<open>n\<close> firings is \<open>min (T1 * 2^n) T2\<close> when it is not an
  INVITE, and \<open>T1 * 2^n\<close> in \<^verbatim>\<open>int64\<close> arithmetic when it is an INVITE, which is
  \<open>T1 * 2^n\<close> itself for the first 34 firings. The same clamped doubling holds from
  any state calling or proceeding of a transaction that is not an INVITE.
\<close>

theorem C5_timer_a_periods:
  "(timer_a tx \<noteq> None \<and> \<not> IsInvite (origin tx)
      \<and> fsm_state tx \<in> {client_state_calling, client_state_proceeding} \<longrightarrow>
      (\<exists>tx' e. spinOnce tx client_input_timer_a = Some (tx', e)
          \<and> timer_a_time tx' = min (int64 (timer_a_time tx * 2)) T2
          \<and> timer_a tx' = Some (timer_a_time tx')
          \<and> sent tx' = sent tx @ [(dest tx, origin tx)]
          \<and> fsm_state tx' = fsm_state tx))
   \<and> (timer_a tx \<noteq> None \<and> IsInvite (origin tx) \<and> fsm_state tx = client_state_calling \<longrightarrow>
      (\<exists>tx' e. spinOnce tx client_input_timer_a = Some (tx', e)
          \<and> timer_a_time tx' = int64 (timer_a_time tx * 2)
          \<and> timer_a tx' = Some (timer_a_time tx')
          \<and> sent tx' = sent tx @ [(dest tx, origin tx)]
          \<and> fsm_state tx' = fsm_state tx))
   \<and> (NewClientTx orig d (\<lambda>t. False) (\<lambda>k. None) = Some tx0 \<longrightarrow>
      timer_a_time tx0 = T1 \<and> timer_a tx0 = Some T1
      \<and> (\<exists>txn. run tx0 (replicate n Timer_a_fires) = Returned txn
            \<and> length (sent txn) = n
            \<and> fsm_state txn = client_state_calling
            \<and> (\<not> IsInvite orig \<longrightarrow> timer_a_time txn = min (T1 * 2 ^ n) T2)
            \<and> (IsInvite orig \<longrightarrow> timer_a_time txn = int64 (T1 * 2 ^ n))
            \<and> (IsInvite orig \<and> n \<le> 34 \<longrightarrow> timer_a_time txn = T1 * 2 ^ n)))
   \<and> (\<not> IsInvite (origin tx) \<and> fsm_state tx \<in> {client_state_calling, client_state_proceeding}
        \<and> timer_a tx \<noteq> None \<and> 0 \<le> timer_a_time tx \<and> timer_a_time tx \<le> T2
        \<and> (\<forall>k. send_errs tx k = None) \<longrightarrow>
      (\<exists>txn. run tx (replicate n Timer_a_fires) = Returned txn
            \<and> timer_a_time txn = min (timer_a_time tx * 2 ^ n) T2
            \<and> fsm_state txn = fsm_state tx))"
proof (intro conjI impI)
  assume "timer_a tx \<noteq> None \<and> \<not> IsInvite (origin tx)
      \<and> fsm_state tx \<in> {client_state_calling, client_state_proceeding}"
  then show "\<exists>tx' e. spinOnce tx client_input_timer_a = Some (tx', e)
          \<and> timer_a_time tx' = min (int64 (timer_a_time tx * 2)) T2
          \<and> timer_a tx' = Some (timer_a_time tx')
          \<and> sent tx' = sent tx @ [(dest tx, origin tx)]
          \<and> fsm_state tx' = fsm_state tx"
    using spinOnce_timer_a_non_invite [of tx] by blast
next
  assume "timer_a tx \<noteq> None \<and> IsInvite (origin tx) \<and> fsm_state tx = client_state_calling"
  then show "\<exists>tx' e. spinOnce tx client_input_timer_a = Some (tx', e)
          \<and> timer_a_time tx' = int64 (timer_a_time tx * 2)
          \<and> timer_a tx' = Some (timer_a_time tx')
          \<and> sent tx' = sent tx @ [(dest tx, origin tx)]
          \<and> fsm_state tx' = fsm_state tx"
    using spinOnce_timer_a_invite [of tx] by blast
next
  assume new: "NewClientTx orig d (\<lambda>t. False) (\<lambda>k. None) = Some tx0"
  then have init: "timer_a_time tx0 = T1" "timer_a tx0 = Some T1" "origin tx0 = orig"
    "fsm_state tx0 = client_state_calling" "sent tx0 = []" "\<forall>k. send_errs tx0 k = None"
    by (auto simp: NewClientTx_def Timer_A_def Let_def split: option.splits)
  show "timer_a_time tx0 = T1" by (rule init)
  show "timer_a tx0 = Some T1" by (rule init)
  show "\<exists>txn. run tx0 (replicate n Timer_a_fires) = Returned txn
            \<and> length (sent txn) = n
            \<and> fsm_state txn = client_state_calling
            \<and> (\<not> IsInvite orig \<longrightarrow> timer_a_time txn = min (T1 * 2 ^ n) T2)
            \<and> (IsInvite orig \<longrightarrow> timer_a_time txn = int64 (T1 * 2 ^ n))
            \<and> (IsInvite orig \<and> n \<le> 34 \<longrightarrow> timer_a_time txn = T1 * 2 ^ n)"
  proof (cases "IsInvite orig")
    case True
    have "int64 (timer_a_time tx0) = timer_a_time tx0"
      using init(1) by (simp add: int64_def T1_def)
    with run_timer_a_invite [of tx0 n] init True T1_doublings_fit [of n]
    show ?thesis by auto
  next
    case False
    with run_timer_a_non_invite [of tx0 n] init
    show ?thesis by (auto simp: T1_def T2_def)
  qed
next
  assume "\<not> IsInvite (origin tx) \<and> fsm_state tx \<in> {client_state_calling, client_state_proceeding}
        \<and> timer_a tx \<noteq> None \<and> 0 \<le> timer_a_time tx \<and> timer_a_time tx \<le> T2
        \<and> (\<forall>k. send_errs tx k = None)"
  with run_timer_a_non_invite [of tx n]
  show "\<exists>txn. run tx (replicate n Timer_a_fires) = Returned txn
            \<and> timer_a_time txn = min (timer_a_time tx * 2 ^ n) T2
            \<and> fsm_state txn = fsm_state tx"
    by blast
qed

theorem C5_timer_a_periods_witness:
  "NewClientTx example_options ''pc2.example.com:5060'' (\<lambda>t. False) (\<lambda>k. None)
     = Some (example_tx example_options (\<lambda>k. None))
   \<and> \<not> IsInvite example_options
   \<and> (\<exists>txn. run (example_tx example_options (\<lambda>k. None)) (replicate 4 Timer_a_fires) = Returned txn
          \<and> length (sent txn) = 4 \<and> timer_a_time txn = 4000000000)
   \<and> NewClientTx example_invite ''pc2.example.com:5060'' (\<lambda>t. False) (\<lambda>k. None)
     = Some (example_tx example_invite (\<lambda>k. None))
   \<and> IsInvite example_invite
   \<and> (\<exists>txn. run (example_tx example_invite (\<lambda>k. None)) (replicate 4 Timer_a_fires) = Returned txn
          \<and> length (sent txn) = 4 \<and> timer_a_time txn = 8000000000)"
  using C5_timer_a_periods
          [of "example_tx example_options (\<lambda>k. None)" example_options "''pc2.example.com:5060''"
              "example_tx example_options (\<lambda>k. None)" 4]
        C5_timer_a_periods
          [of "example_tx example_invite (\<lambda>k. None)" example_invite "''pc2.example.com:5060''"
              "example_tx example_invite (\<lambda>k. None)" 4]
  by (auto simp: NewClientTx_def makeClientTxKey_def first_ViaHop_def Timer_A_def Timer_B_def
                 Timer_D_def T1_def T2_def IsInvite_def INVITE_def)

subsection \<open>Client transaction: the ACK for a final response\<close>

lemma ack_request_contents:
  "Method (ack_request orig cseq via res) = ACK
   \<and> Recipient (ack_request orig cseq via res) = Recipient orig
   \<and> ReqSipVersion (ack_request orig cseq via res) = ReqSipVersion orig
   \<and> ReqBody (ack_request orig cseq via res) = []
   \<and> ReqHeaders (ack_request orig cseq via res) =
        GetHeaders (ReqHeaders orig) ''From'' @ GetHeaders (ReqHeaders orig) ''Call-ID''
        @ GetHeaders (ReqHeaders orig) ''Route'' @ [CSeq (fst cseq) ACK, ViaHeader via]
        @ GetHeaders (ResHeaders res) ''To''"
  by (simp add: ack_request_def CopyHeaders_def AppendHeader_def NewRequest_def)

lemma ack_leaves_lastErr: "ack tx = Some (tx', call) \<Longrightarrow> lastErr tx' = lastErr tx"
  by (auto simp: ack_def Let_def split: option.splits if_splits)

text \<open>
  C6. The claim: when an INVITE transaction handles a 3xx+ final response it sends an
  ACK built from the original request and the response, and if sending the ACK fails,
  \<^verbatim>\<open>lastErr\<close> is set and \<^verbatim>\<open>transport_err\<close> is injected. Take the INVITE below, created
  over an unreliable transport whose \<^verbatim>\<open>Send\<close> fails, and hand it a 404. First,
  \<^verbatim>\<open>ack\<close> itself, called as \<^verbatim>\<open>act_invite_final\<close> calls it (the 404 is the last response
  and has been passed up): it hands the ACK that the claim describes to the transport
  layer and calls \<^verbatim>\<open>Spin\<close> with \<^verbatim>\<open>transport_err\<close>, but \<^verbatim>\<open>lastErr\<close> of the transaction is
  still unset. Second, the whole of \<^verbatim>\<open>Receive\<close>: the call is blocked in that call of
  \<^verbatim>\<open>Spin\<close>, with the ACK sent, the 404 passed up, no error surfaced and \<^verbatim>\<open>lastErr\<close>
  unset.
\<close>

theorem C6_failed_ack_leaves_lastErr_unset:
  "map_option (\<lambda>(tx, call). (lastErr tx, sent tx, call))
     (ack ((example_tx example_invite (\<lambda>n. Some SendFailed))
             \<lparr> lastResp := Some example_404, fsm_state := client_state_completed,
               msgs := [example_404] \<rparr>))
   = Some (None, [(''pc2.example.com:5060'', example_ack)], Some client_input_transport_err)
   \<and> (case NewClientTx example_invite ''pc2.example.com:5060'' (\<lambda>t. False)
              (\<lambda>n. Some SendFailed) of
         None \<Rightarrow> None
       | Some tx0 \<Rightarrow>
           (case run tx0 [Receives (ResponseMsg example_404)] of
              Blocked tx \<Rightarrow> Some (lastErr tx, sent tx, errs tx, msgs tx)
            | _ \<Rightarrow> None))
     = Some (None, [(''pc2.example.com:5060'', example_ack)], [], [example_404])"
  by (simp add: tx_eval)

subsection \<open>Address headers\<close>

lemma parseAddressHeader_example:
  "parseAddressHeader ''contact'' ''Bob <sips:bob:pw@example.com:5061;transport=tcp?x=y>;q=0.5, sip:c@d''
     = Ok [ContactHeader (Some ''Bob'')
             (SipUriOf \<lparr> IsEncrypted = True, User = Some ''bob'', Password = Some ''pw'',
                         Host = ''example.com'', Port = Some 5061,
                         UriParams = [(''transport'', Some ''tcp'')],
                         Headers = [(''x'', Some ''y'')] \<rparr>)
             [(''q'', Some ''0.5'')],
           ContactHeader None
             (SipUriOf \<lparr> IsEncrypted = False, User = Some ''c'', Password = None,
                         Host = ''d'', Port = None, UriParams = [], Headers = [] \<rparr>)
             []]"
  by (simp add: addr_eval)

lemma parseAddressHeader_claimed_example:
  "parseAddressHeader ''contact'' ''a@b, ,c@d'' = Err UriNoColon"
  by (simp add: addr_eval)

lemma strings_TrimSpace_unicode:
  "strings_TrimSpace [CHR 0xC2, CHR 0xA0, CHR ''a'', CHR '' '', CHR ''b'', CHR 0xE2, CHR 0x80,
                      CHR 0x80, CHR 0x0D, CHR 0x0A] = ''a b''
   \<and> strings_TrimSpace [CHR 0x80, CHR '' '', CHR 0xA0] = [CHR 0x80, CHR '' '', CHR 0xA0]
   \<and> parseAddressValue [CHR 0xC2, CHR 0xA0] = Panic"
  by (simp add: addr_eval)

text \<open>
  C3. The claim: no parsing function panics, whatever the input. The code does: for the
  header line \<^verbatim>\<open>Contact: sip:a@b, ,sip:c@d\<close> the address header parser receives the
  field text \<^verbatim>\<open>sip:a@b, ,sip:c@d\<close>, parses the first section, and panics on the second.
  That section, one space, passes the test for an empty body, is trimmed to the empty
  string, and then its first byte is read. Called on its own, \<^verbatim>\<open>parseAddressValue\<close>
  also panics on a bracketed address without closing bracket: the index \<open>-1\<close> of the
  missing bracket is compared with 0 and then used as the end of a slice.
\<close>

theorem C3_address_parser_panics:
  "parseAddressHeader ''contact'' ''sip:a@b, ,sip:c@d'' = Panic
   \<and> parseAddressValues ''sip:a@b, ,sip:c@d'' = Panic
   \<and> parseAddressValue '' '' = Panic
   \<and> parseAddressValue ''<sip:a@b'' = Panic"
  by (simp add: addr_eval)

end
